theory Spec2Isabelle
  imports Complex_Main
begin

section \<open>Semi-global alignment front end (seqan\_align.cpp)\<close>

text \<open>
  The file \<^verbatim>\<open>seqan_align.cpp\<close> finds the k-mers two sequences share, hands them as seeds
  to the SeqAn library (seed set, global chaining, banded chain alignment), and walks the
  two aligned rows once to build a CIGAR string and alignment statistics.  The functions
  of the file are embedded below in the order of the source.  The SeqAn calls and the
  arithmetic on \<^verbatim>\<open>double\<close> are not code of the file: they are parameters of the model.
\<close>

subsection \<open>Failures and machine integers\<close>

text \<open>
  A C++ exception that nothing catches (the functions are \<^verbatim>\<open>extern "C"\<close> and have no
  handler) and undefined behaviour are results of the model, not of HOL's totality.
\<close>

datatype error =
    SignedOverflow      \<comment> \<open>an \<^verbatim>\<open>int\<close> expression leaves the range of \<^verbatim>\<open>int\<close>\<close>
  | LengthError         \<comment> \<open>\<^verbatim>\<open>std::length_error\<close> thrown by \<^verbatim>\<open>vector::reserve\<close>\<close>
  | OutOfRange          \<comment> \<open>\<^verbatim>\<open>std::out_of_range\<close> of \<^verbatim>\<open>substr\<close>, or a read past the end of a string\<close>
  | UninitialisedRead   \<comment> \<open>a local variable is read before it is assigned\<close>

definition INT_MAX :: int where
  "INT_MAX = 2147483647"

definition INT_MIN :: int where
  "INT_MIN = - 2147483648"

definition in_int :: "int \<Rightarrow> bool" where
  "in_int x = (INT_MIN \<le> x \<and> x \<le> INT_MAX)"

text \<open>Conversion of an integer value to \<^verbatim>\<open>int\<close> (32 bits, two's complement).\<close>

definition to_int :: "int \<Rightarrow> int" where
  "to_int x = (x + 2147483648) mod 4294967296 - 2147483648"

text \<open>Conversion of an \<^verbatim>\<open>int\<close> to \<^verbatim>\<open>size_t\<close> (64 bits, unsigned).\<close>

definition to_size_t :: "int \<Rightarrow> nat" where
  "to_size_t x = nat (x mod 18446744073709551616)"

subsection \<open>\<^verbatim>\<open>std::to_string\<close> on \<^verbatim>\<open>int\<close>, and \<^verbatim>\<open>vectorToString\<close>\<close>

definition digit_char :: "nat \<Rightarrow> char" where
  "digit_char d = ''0123456789'' ! d"

fun decimal :: "nat \<Rightarrow> string" where
  "decimal n = (if n < 10 then [digit_char n] else decimal (n div 10) @ [digit_char (n mod 10)])"

declare decimal.simps [simp del]

definition to_string :: "int \<Rightarrow> string" where
  "to_string x = (if x < 0 then CHR ''-'' # decimal (nat (- x)) else decimal (nat x))"

text \<open>
  \<^verbatim>\<open>vectorToString\<close> (lines 253--263): the elements in order, a semicolon before every
  element but the first.
\<close>

fun vectorToString_from :: "bool \<Rightarrow> int list \<Rightarrow> string" where
  "vectorToString_from first [] = []"
| "vectorToString_from first (x # xs) =
     (if first then [] else '';'') @ to_string x @ vectorToString_from False xs"

definition vectorToString :: "int list \<Rightarrow> string" where
  "vectorToString v = vectorToString_from True v"

subsection \<open>CIGAR types (lines 31, 265--300)\<close>

datatype CigarType = MATCH | INSERTION | DELETION | CLIP | NOTHING

definition getCigarType :: "char \<Rightarrow> char \<Rightarrow> bool \<Rightarrow> CigarType" where
  "getCigarType b1 b2 alignmentStarted =
     (if b1 = CHR ''-'' then (if alignmentStarted then DELETION else NOTHING)
      else if b2 = CHR ''-'' then (if alignmentStarted then INSERTION else CLIP)
      else MATCH)"

definition getCigarPart :: "CigarType \<Rightarrow> int \<Rightarrow> string" where
  "getCigarPart type len =
     (if type = DELETION then ''D'' @ to_string len
      else if type = INSERTION then ''I'' @ to_string len
      else if type = CLIP then ''S'' @ to_string len
      else if type = MATCH then ''M'' @ to_string len
      else [])"

subsection \<open>K-mers (lines 303--314)\<close>

type_synonym Kmer = "string \<times> int \<times> int"

text \<open>
  \<^verbatim>\<open>seq.substr(pos, count)\<close>: throws \<^verbatim>\<open>std::out_of_range\<close> when \<open>pos\<close> is past the end,
  and otherwise returns at most \<open>count\<close> characters from \<open>pos\<close> on.  The count is a
  \<^verbatim>\<open>size_t\<close>: the source passes the \<^verbatim>\<open>int kSize\<close>, which is converted.
\<close>

definition substr :: "string \<Rightarrow> nat \<Rightarrow> nat \<Rightarrow> error + string" where
  "substr seq pos count =
     (if length seq < pos then Inl OutOfRange else Inr (take count (drop pos seq)))"

text \<open>The loop body of \<^verbatim>\<open>getSeqKmers\<close>, over the values \<open>i = 0, ..., kCount - 1\<close>.\<close>

fun kmersAt :: "string \<Rightarrow> int \<Rightarrow> nat list \<Rightarrow> error + Kmer list" where
  "kmersAt seq kSize [] = Inr []"
| "kmersAt seq kSize (i # is) =
     (case substr seq i (to_size_t kSize) of
        Inl e \<Rightarrow> Inl e
      | Inr s \<Rightarrow>
          (case kmersAt seq kSize is of
             Inl e \<Rightarrow> Inl e
           | Inr kmers \<Rightarrow> Inr ((s, int i, int i + kSize) # kmers)))"

text \<open>
  \<^verbatim>\<open>getSeqKmers\<close>.  \<^verbatim>\<open>kCount = strLen - kSize\<close> is computed in \<^verbatim>\<open>int\<close>.  \<^verbatim>\<open>kmers.reserve(kCount)\<close>
  takes a \<^verbatim>\<open>size_t\<close>: a negative \<open>kCount\<close> converts to a value of at least
  \<open>2^64 - 2^31\<close>, above \<^verbatim>\<open>max_size()\<close> of the vector, and \<^verbatim>\<open>reserve\<close> throws
  \<^verbatim>\<open>std::length_error\<close>.  In the loop \<open>i + kSize\<close> lies between \<open>kSize\<close> and \<open>strLen\<close>
  and cannot overflow.
\<close>

definition getSeqKmers :: "string \<Rightarrow> int \<Rightarrow> int \<Rightarrow> error + Kmer list" where
  "getSeqKmers seq strLen kSize =
     (if in_int (strLen - kSize)
      then (let kCount = strLen - kSize
            in if kCount < 0 then Inl LengthError
               else kmersAt seq kSize [0 ..< nat kCount])
      else Inl SignedOverflow)"

subsection \<open>Common locations (lines 317--347)\<close>

type_synonym KmerDict = "string \<rightharpoonup> int \<times> int"

type_synonym CommonLocation = "int \<times> int \<times> int \<times> int"

text \<open>First loop: \<^verbatim>\<open>s1KmerPositions[s1KmerSeq] = s1Positions\<close> for every k-mer of \<open>s1Kmers\<close>.\<close>

fun storeKmers :: "Kmer list \<Rightarrow> KmerDict \<Rightarrow> KmerDict" where
  "storeKmers [] s1KmerPositions = s1KmerPositions"
| "storeKmers ((s1KmerSeq, s1Start, s1End) # kmers) s1KmerPositions =
     storeKmers kmers (s1KmerPositions(s1KmerSeq \<mapsto> (s1Start, s1End)))"

text \<open>Second loop: one common location for every k-mer of \<open>s2Kmers\<close> that is a key of the map.\<close>

fun lookupKmers :: "KmerDict \<Rightarrow> Kmer list \<Rightarrow> CommonLocation list" where
  "lookupKmers s1KmerPositions [] = []"
| "lookupKmers s1KmerPositions ((s2KmerSeq, s2Start, s2End) # kmers) =
     (case s1KmerPositions s2KmerSeq of
        Some (s1Start, s1End) \<Rightarrow>
          (s1Start, s1End, s2Start, s2End) # lookupKmers s1KmerPositions kmers
      | None \<Rightarrow> lookupKmers s1KmerPositions kmers)"

text \<open>
  \<^verbatim>\<open>getCommonLocations\<close>.  Both loops count in an \<^verbatim>\<open>int i\<close> up to \<^verbatim>\<open>size()\<close>: on a vector
  of more than \<open>INT_MAX\<close> elements \<open>++i\<close> overflows.  Every vector that \<^verbatim>\<open>getSeqKmers\<close>
  builds is shorter.
\<close>

definition getCommonLocations :: "Kmer list \<Rightarrow> Kmer list \<Rightarrow> error + CommonLocation list" where
  "getCommonLocations s1Kmers s2Kmers =
     (if int (length s1Kmers) \<le> INT_MAX \<and> int (length s2Kmers) \<le> INT_MAX
      then Inr (lookupKmers (storeKmers s1Kmers Map.empty) s2Kmers)
      else Inl SignedOverflow)"

text \<open>
  The same function in the words of its contract: the position stored for a content is
  that of its last occurrence in \<open>s1Kmers\<close>, and every k-mer of \<open>s2Kmers\<close> whose content
  occurs in \<open>s1Kmers\<close> gives one common location, in the order of \<open>s2Kmers\<close>.
\<close>

definition lastOccurrence :: "Kmer list \<Rightarrow> string \<Rightarrow> (int \<times> int) option" where
  "lastOccurrence s1Kmers content =
     (case filter (\<lambda>kmer. fst kmer = content) s1Kmers of
        [] \<Rightarrow> None
      | k # ks \<Rightarrow> Some (snd (last (k # ks))))"

definition commonLocation_spec :: "Kmer list \<Rightarrow> Kmer \<Rightarrow> CommonLocation list" where
  "commonLocation_spec s1Kmers kmer2 =
     (case lastOccurrence s1Kmers (fst kmer2) of
        None \<Rightarrow> []
      | Some (s1Start, s1End) \<Rightarrow> [(s1Start, s1End, fst (snd kmer2), snd (snd kmer2))])"

definition getCommonLocations_spec :: "Kmer list \<Rightarrow> Kmer list \<Rightarrow> CommonLocation list" where
  "getCommonLocations_spec s1Kmers s2Kmers = concat (map (commonLocation_spec s1Kmers) s2Kmers)"

subsection \<open>The SeqAn calls and the arithmetic on doubles, as parameters\<close>

text \<open>
  A seed holds four positions of type \<^verbatim>\<open>size_t\<close>.  The constructor call of line 67 is
  \<^verbatim>\<open>TSeed seed(beginH, beginV, endH, endV)\<close>, with \<^verbatim>\<open>int\<close> arguments that are converted.
\<close>

record Seed =
  beginPositionH :: nat
  beginPositionV :: nat
  endPositionH :: nat
  endPositionV :: nat

definition TSeed :: "int \<Rightarrow> int \<Rightarrow> int \<Rightarrow> int \<Rightarrow> Seed" where
  "TSeed beginH beginV endH endV =
     \<lparr>beginPositionH = to_size_t beginH, beginPositionV = to_size_t beginV,
      endPositionH = to_size_t endH, endPositionV = to_size_t endV\<rparr>"

text \<open>
  The library calls of \<^verbatim>\<open>semiGlobalAlign\<close>.  \<open>'ss\<close> is the type of a seed set.
  \<^item> \<open>emptySeedSet\<close>: the default-constructed \<^verbatim>\<open>TSeedSet\<close> of line 63;
  \<^item> \<open>addSeedMerge\<close>: \<^verbatim>\<open>addSeed(seedSet, seed, 1, Merge())\<close>, the flag it returns and the
    seed set it leaves;
  \<^item> \<open>addSeedSingle\<close>: \<^verbatim>\<open>addSeed(seedSet, seed, Single())\<close>;
  \<^item> \<open>chainSeedsGlobally\<close>: the chain that \<^verbatim>\<open>chainSeedsGlobally(seedChain, seedSet, SparseChaining())\<close>
    writes;
  \<^item> \<open>bandedChainAlignment\<close>: lines 98--115, from the two sequences, the chain and
    \<open>bandSize\<close> to the two rows of the alignment as the streams print them, gaps as
    \<^verbatim>\<open>'-'\<close> (scoring scheme and configuration are constants of the source).
\<close>

record 'ss SeqAn =
  emptySeedSet :: 'ss
  addSeedMerge :: "'ss \<Rightarrow> Seed \<Rightarrow> bool \<times> 'ss"
  addSeedSingle :: "'ss \<Rightarrow> Seed \<Rightarrow> 'ss"
  chainSeedsGlobally :: "'ss \<Rightarrow> Seed list"
  bandedChainAlignment :: "string \<Rightarrow> string \<Rightarrow> Seed list \<Rightarrow> int \<Rightarrow> string \<times> string"

text \<open>
  The operations on \<^verbatim>\<open>double\<close> that the source uses; \<open>'d\<close> is the type of a double.
  \<open>d_of_int\<close> is the conversion \<^verbatim>\<open>double(n)\<close>, \<open>d_one\<close> and \<open>d_hundred\<close> are the literals
  \<^verbatim>\<open>1.0\<close> and \<^verbatim>\<open>100.0\<close>, \<open>d_to_string\<close> is \<^verbatim>\<open>std::to_string\<close> on a double.
\<close>

record 'd DoubleOps =
  d_of_int :: "int \<Rightarrow> 'd"
  d_one :: 'd
  d_hundred :: 'd
  d_add :: "'d \<Rightarrow> 'd \<Rightarrow> 'd"
  d_sub :: "'d \<Rightarrow> 'd \<Rightarrow> 'd"
  d_mul :: "'d \<Rightarrow> 'd \<Rightarrow> 'd"
  d_div :: "'d \<Rightarrow> 'd \<Rightarrow> 'd"
  d_less :: "'d \<Rightarrow> 'd \<Rightarrow> bool"
  d_to_string :: "'d \<Rightarrow> string"

subsection \<open>Seeding and the chain filter (lines 63--94)\<close>

text \<open>The loop of lines 64--70: merge the seed into the set, or add it on its own.\<close>

fun addSeeds :: "'ss SeqAn \<Rightarrow> CommonLocation list \<Rightarrow> 'ss \<Rightarrow> 'ss" where
  "addSeeds lib [] seedSet = seedSet"
| "addSeeds lib ((l0, l1, l2, l3) # commonLocations) seedSet =
     (let seed = TSeed l0 l2 l1 l3;
          merged = addSeedMerge lib seedSet seed
      in addSeeds lib commonLocations
           (if fst merged then snd merged else addSeedSingle lib (snd merged) seed))"

text \<open>
  Lines 85--87.  The positions are \<^verbatim>\<open>size_t\<close>, their difference is taken modulo \<open>2^64\<close>
  and converted to \<^verbatim>\<open>int\<close>.  \<open>seedChain[seedsInChain-1]\<close> is the last seed of a chain
  of at most \<open>INT_MAX\<close> seeds (a chain has no more seeds than there are common locations).
\<close>

definition seq1Span :: "Seed list \<Rightarrow> int" where
  "seq1Span seedChain =
     to_int ((int (endPositionH (last seedChain)) - int (beginPositionH (hd seedChain)))
             mod 18446744073709551616)"

definition seq2Span :: "Seed list \<Rightarrow> int" where
  "seq2Span seedChain =
     to_int ((int (endPositionV (last seedChain)) - int (beginPositionV (hd seedChain)))
             mod 18446744073709551616)"

text \<open>
  Lines 90--93: the three doubles and the test \<^verbatim>\<open>ratio < minRatio || ratio > maxRatio\<close>,
  the second comparison written as \<open>maxRatio < ratio\<close>.
\<close>

definition spanRatio :: "'d DoubleOps \<Rightarrow> Seed list \<Rightarrow> 'd" where
  "spanRatio ops seedChain =
     d_div ops (d_of_int ops (seq1Span seedChain)) (d_of_int ops (seq2Span seedChain))"

definition minRatio :: "'d DoubleOps \<Rightarrow> 'd \<Rightarrow> 'd" where
  "minRatio ops allowedLengthDiscrepancy = d_sub ops (d_one ops) allowedLengthDiscrepancy"

definition maxRatio :: "'d DoubleOps \<Rightarrow> 'd \<Rightarrow> 'd" where
  "maxRatio ops allowedLengthDiscrepancy = d_add ops (d_one ops) allowedLengthDiscrepancy"

definition ratioOutOfTolerance :: "'d DoubleOps \<Rightarrow> Seed list \<Rightarrow> 'd \<Rightarrow> bool" where
  "ratioOutOfTolerance ops seedChain allowedLengthDiscrepancy =
     (d_less ops (spanRatio ops seedChain) (minRatio ops allowedLengthDiscrepancy)
      \<or> d_less ops (maxRatio ops allowedLengthDiscrepancy) (spanRatio ops seedChain))"

text \<open>Lines 82--94 together: the chain is given up before any alignment is made.\<close>

definition chainRejected :: "'d DoubleOps \<Rightarrow> Seed list \<Rightarrow> 'd \<Rightarrow> bool" where
  "chainRejected ops seedChain allowedLengthDiscrepancy =
     (if length seedChain = 0 then True
      else if seq2Span seedChain = 0 then True
      else ratioOutOfTolerance ops seedChain allowedLengthDiscrepancy)"

subsection \<open>The CIGAR string and the statistics (lines 117--205)\<close>

text \<open>The local variables of lines 122--134, as the loop updates them.\<close>

record CigarState =
  cigarString :: string
  currentCigarType :: CigarType
  currentCigarLength :: int
  matchCount :: int
  mismatchCount :: int
  insertionCount :: int
  deletionCount :: int
  s2MismatchPositions :: "int list"
  s2InsertionPositions :: "int list"
  s2DeletionPositions :: "int list"
  s1Start :: int
  s2Start :: int
  s1Bases :: int
  s2Bases :: int
  alignmentStarted :: bool

text \<open>
  \<open>currentCigarType\<close> is declared without a value (line 123) and assigned in the
  iteration \<open>i = 0\<close> before it is read; the value \<open>NOTHING\<close> below is never read.
\<close>

definition initialCigarState :: CigarState where
  "initialCigarState =
     \<lparr>cigarString = [], currentCigarType = NOTHING, currentCigarLength = 0,
      matchCount = 0, mismatchCount = 0, insertionCount = 0, deletionCount = 0,
      s2MismatchPositions = [], s2InsertionPositions = [], s2DeletionPositions = [],
      s1Start = - 1, s2Start = - 1, s1Bases = 0, s2Bases = 0, alignmentStarted = False\<rparr>"

text \<open>
  \<^verbatim>\<open>s[i]\<close> on a \<^verbatim>\<open>std::string\<close>: the character at \<open>i\<close>, the terminating \<^verbatim>\<open>'\0'\<close> at
  \<open>i = size()\<close>, and undefined past it.
\<close>

definition charAt :: "string \<Rightarrow> nat \<Rightarrow> error + char" where
  "charAt s i =
     (if i < length s then Inr (s ! i)
      else if i = length s then Inr (CHR 0x00)
      else Inl OutOfRange)"

text \<open>
  One iteration of the loop on the column \<open>(base1, base2)\<close>, block by block.
  Lines 140--145: the first column with a base in both rows starts the alignment.
\<close>

definition startAlignment :: "char \<Rightarrow> char \<Rightarrow> CigarState \<Rightarrow> CigarState" where
  "startAlignment base1 base2 st =
     (if base1 \<noteq> CHR ''-'' \<and> base2 \<noteq> CHR ''-'' \<and> \<not> alignmentStarted st
      then st\<lparr>s1Start := s1Bases st, s2Start := s2Bases st, alignmentStarted := True\<rparr>
      else st)"

text \<open>Lines 148--149.\<close>

definition setFirstType :: "nat \<Rightarrow> CigarType \<Rightarrow> CigarState \<Rightarrow> CigarState" where
  "setFirstType i cigarType st = (if i = 0 then st\<lparr>currentCigarType := cigarType\<rparr> else st)"

text \<open>Lines 151--170.\<close>

definition countColumn :: "CigarType \<Rightarrow> char \<Rightarrow> char \<Rightarrow> CigarState \<Rightarrow> CigarState" where
  "countColumn cigarType base1 base2 st =
     (if cigarType = MATCH
      then (if base1 = base2
            then st\<lparr>matchCount := matchCount st + 1\<rparr>
            else st\<lparr>mismatchCount := mismatchCount st + 1,
                    s2MismatchPositions := s2MismatchPositions st @ [s2Bases st]\<rparr>)
      else if cigarType = DELETION
      then st\<lparr>deletionCount := deletionCount st + 1,
              s2DeletionPositions := s2DeletionPositions st @ [s2Bases st]\<rparr>
      else if cigarType = INSERTION
      then st\<lparr>insertionCount := insertionCount st + 1,
              s2InsertionPositions := s2InsertionPositions st @ [s2Bases st]\<rparr>
      else st)"

text \<open>Lines 172--179.\<close>

definition extendRun :: "CigarType \<Rightarrow> CigarState \<Rightarrow> CigarState" where
  "extendRun cigarType st =
     (if cigarType = currentCigarType st
      then st\<lparr>currentCigarLength := currentCigarLength st + 1\<rparr>
      else st\<lparr>cigarString := cigarString st
                   @ getCigarPart (currentCigarType st) (currentCigarLength st),
              currentCigarType := cigarType,
              currentCigarLength := 1\<rparr>)"

text \<open>Lines 181--184.\<close>

definition countBases :: "char \<Rightarrow> char \<Rightarrow> CigarState \<Rightarrow> CigarState" where
  "countBases base1 base2 st =
     (let st1 = (if base1 \<noteq> CHR ''-'' then st\<lparr>s1Bases := s1Bases st + 1\<rparr> else st)
      in (if base2 \<noteq> CHR ''-'' then st1\<lparr>s2Bases := s2Bases st1 + 1\<rparr> else st1))"

text \<open>The body of the loop (lines 137--184).\<close>

definition cigarStep :: "nat \<Rightarrow> char \<Rightarrow> char \<Rightarrow> CigarState \<Rightarrow> CigarState" where
  "cigarStep i base1 base2 st =
     (let st1 = startAlignment base1 base2 st;
          cigarType = getCigarType base1 base2 (alignmentStarted st1)
      in countBases base1 base2
           (extendRun cigarType
              (countColumn cigarType base1 base2
                 (setFirstType i cigarType st1))))"

text \<open>The loop of line 135 over the values of \<open>i\<close>, reading both rows at \<open>i\<close>.\<close>

fun cigarLoop :: "string \<Rightarrow> string \<Rightarrow> nat list \<Rightarrow> CigarState \<Rightarrow> error + CigarState" where
  "cigarLoop s1Alignment s2Alignment [] st = Inr st"
| "cigarLoop s1Alignment s2Alignment (i # is) st =
     (case charAt s1Alignment i of
        Inl e \<Rightarrow> Inl e
      | Inr base1 \<Rightarrow>
          (case charAt s2Alignment i of
             Inl e \<Rightarrow> Inl e
           | Inr base2 \<Rightarrow> cigarLoop s1Alignment s2Alignment is (cigarStep i base1 base2 st)))"

text \<open>
  The values that lines 187--205 add to the locals of the loop: the record is the
  content of the result string but for the percent identity and the elapsed time.
\<close>

record AlignmentResult = CigarState +
  s1End :: int
  s2End :: int
  editDistance :: int
  alignedLength :: int

text \<open>Lines 187--205: the correction of the last run, and the totals.\<close>

definition finishCigar :: "CigarState \<Rightarrow> AlignmentResult" where
  "finishCigar st =
     (let lastType = (if currentCigarType st = INSERTION then CLIP
                      else if currentCigarType st = DELETION then NOTHING
                      else currentCigarType st);
          insertions = (if currentCigarType st = INSERTION
                        then insertionCount st - currentCigarLength st
                        else insertionCount st);
          deletions = (if currentCigarType st = INSERTION then deletionCount st
                       else if currentCigarType st = DELETION
                       then deletionCount st - currentCigarLength st
                       else deletionCount st)
      in \<lparr>cigarString = cigarString st @ getCigarPart lastType (currentCigarLength st),
          currentCigarType = lastType,
          currentCigarLength = currentCigarLength st,
          matchCount = matchCount st,
          mismatchCount = mismatchCount st,
          insertionCount = insertions,
          deletionCount = deletions,
          s2MismatchPositions = s2MismatchPositions st,
          s2InsertionPositions = s2InsertionPositions st,
          s2DeletionPositions = s2DeletionPositions st,
          s1Start = s1Start st,
          s2Start = s2Start st,
          s1Bases = s1Bases st,
          s2Bases = s2Bases st,
          alignmentStarted = alignmentStarted st,
          s1End = (if currentCigarType st = INSERTION
                   then s1Bases st - currentCigarLength st else s1Bases st),
          s2End = (if currentCigarType st = INSERTION then s2Bases st
                   else if currentCigarType st = DELETION
                   then s2Bases st - currentCigarLength st else s2Bases st),
          editDistance = mismatchCount st + insertions + deletions,
          alignedLength = matchCount st + mismatchCount st + insertions + deletions\<rparr>)"

text \<open>Line 117: \<open>alignmentLength\<close> is an \<^verbatim>\<open>int\<close> made from a \<^verbatim>\<open>size_t\<close>.\<close>

definition alignmentLength :: "string \<Rightarrow> string \<Rightarrow> int" where
  "alignmentLength s1Alignment s2Alignment =
     to_int (int (max (length s1Alignment) (length s2Alignment)))"

text \<open>
  Lines 117--205.  The result \<open>None\<close> is the return of line 119.  Were \<open>alignmentLength\<close>
  negative the loop would not run and line 189 would read \<open>currentCigarType\<close> unassigned.
\<close>

definition cigarStats :: "string \<Rightarrow> string \<Rightarrow> error + AlignmentResult option" where
  "cigarStats s1Alignment s2Alignment =
     (if alignmentLength s1Alignment s2Alignment = 0 then Inr None
      else if alignmentLength s1Alignment s2Alignment < 0 then Inl UninitialisedRead
      else (case cigarLoop s1Alignment s2Alignment
                   [0 ..< nat (alignmentLength s1Alignment s2Alignment)] initialCigarState of
              Inl e \<Rightarrow> Inl e
            | Inr st \<Rightarrow> Inr (Some (finishCigar st))))"

subsection \<open>The result string (lines 206--224)\<close>

text \<open>Line 206: \<^verbatim>\<open>100.0 * matchCount / alignedLength\<close>, with no test of the divisor.\<close>

definition percentIdentity :: "'d DoubleOps \<Rightarrow> AlignmentResult \<Rightarrow> 'd" where
  "percentIdentity ops res =
     d_div ops (d_mul ops (d_hundred ops) (d_of_int ops (matchCount res)))
               (d_of_int ops (alignedLength res))"

text \<open>
  Lines 209--224; \<open>milliseconds\<close> is the \<^verbatim>\<open>int\<close> of line 207, the difference of two readings
  of the system clock.
\<close>

definition finalString :: "'d DoubleOps \<Rightarrow> int \<Rightarrow> AlignmentResult \<Rightarrow> string" where
  "finalString ops milliseconds res =
     cigarString res @ '','' @
     to_string (s1Start res) @ '','' @
     to_string (s1End res) @ '','' @
     to_string (s2Start res) @ '','' @
     to_string (s2End res) @ '','' @
     to_string (alignedLength res) @ '','' @
     to_string (matchCount res) @ '','' @
     to_string (mismatchCount res) @ '','' @
     vectorToString (s2MismatchPositions res) @ '','' @
     to_string (insertionCount res) @ '','' @
     vectorToString (s2InsertionPositions res) @ '','' @
     to_string (deletionCount res) @ '','' @
     vectorToString (s2DeletionPositions res) @ '','' @
     to_string (editDistance res) @ '','' @
     d_to_string ops (percentIdentity ops res) @ '','' @
     to_string milliseconds"

subsection \<open>\<^verbatim>\<open>semiGlobalAlign\<close> (lines 50--236)\<close>

text \<open>
  \<open>s1\<close> and \<open>s2\<close> are the contents of the two C strings.  The result is the content of the
  C string returned: \<^verbatim>\<open>strdup("")\<close> at the four early returns, the record otherwise.
\<close>

definition seedChainOf :: "'ss SeqAn \<Rightarrow> CommonLocation list \<Rightarrow> Seed list" where
  "seedChainOf lib commonLocations =
     chainSeedsGlobally lib (addSeeds lib commonLocations (emptySeedSet lib))"

definition alignChain ::
  "'ss SeqAn \<Rightarrow> 'd DoubleOps \<Rightarrow> string \<Rightarrow> string \<Rightarrow> int \<Rightarrow> 'd \<Rightarrow> int \<Rightarrow> Seed list \<Rightarrow> error + string"
where
  "alignChain lib ops s1 s2 bandSize allowedLengthDiscrepancy milliseconds seedChain =
     (if length seedChain = 0 then Inr []
      else if seq2Span seedChain = 0 then Inr []
      else if ratioOutOfTolerance ops seedChain allowedLengthDiscrepancy then Inr []
      else (let rows = bandedChainAlignment lib s1 s2 seedChain bandSize
            in case cigarStats (fst rows) (snd rows) of
                 Inl e \<Rightarrow> Inl e
               | Inr None \<Rightarrow> Inr []
               | Inr (Some res) \<Rightarrow> Inr (finalString ops milliseconds res)))"

definition commonLocationsOf :: "string \<Rightarrow> string \<Rightarrow> int \<Rightarrow> int \<Rightarrow> int \<Rightarrow> error + CommonLocation list" where
  "commonLocationsOf s1 s2 s1Len s2Len kSize =
     (case getSeqKmers s1 s1Len kSize of
        Inl e \<Rightarrow> Inl e
      | Inr s1Kmers \<Rightarrow>
          (case getSeqKmers s2 s2Len kSize of
             Inl e \<Rightarrow> Inl e
           | Inr s2Kmers \<Rightarrow> getCommonLocations s1Kmers s2Kmers))"

definition semiGlobalAlign ::
  "'ss SeqAn \<Rightarrow> 'd DoubleOps \<Rightarrow> string \<Rightarrow> string \<Rightarrow> int \<Rightarrow> int \<Rightarrow> int \<Rightarrow> int \<Rightarrow> 'd \<Rightarrow> int \<Rightarrow> error + string"
where
  "semiGlobalAlign lib ops s1 s2 s1Len s2Len kSize bandSize allowedLengthDiscrepancy milliseconds =
     (case commonLocationsOf s1 s2 s1Len s2Len kSize of
        Inl e \<Rightarrow> Inl e
      | Inr commonLocations \<Rightarrow>
          alignChain lib ops s1 s2 bandSize allowedLengthDiscrepancy milliseconds
            (seedChainOf lib commonLocations))"

section \<open>Reading a CIGAR string\<close>

text \<open>
  The CIGAR field as the source writes it: a sequence of tokens, each an operation letter
  followed by a decimal length.  \<open>parseCigar\<close> reads such a string back into its tokens and
  fails on any other string.
\<close>

definition isDigit :: "char \<Rightarrow> bool" where
  "isDigit c = (c \<in> set ''0123456789'')"

definition isOpLetter :: "char \<Rightarrow> bool" where
  "isOpLetter c = (c \<in> set ''MIDS'')"

definition digitValue :: "char \<Rightarrow> nat" where
  "digitValue c = of_char c - 48"

definition natOfDigits :: "string \<Rightarrow> nat" where
  "natOfDigits ds = foldl (\<lambda>n c. 10 * n + digitValue c) 0 ds"

function parseCigar :: "string \<Rightarrow> (char \<times> nat) list option" where
  "parseCigar [] = Some []"
| "parseCigar (c # cs) =
     (if isOpLetter c \<and> takeWhile isDigit cs \<noteq> []
      then (case parseCigar (dropWhile isDigit cs) of
              None \<Rightarrow> None
            | Some runs \<Rightarrow> Some ((c, natOfDigits (takeWhile isDigit cs)) # runs))
      else None)"
  by pat_completeness auto
termination
  by (relation "measure length") (auto simp: length_dropWhile_le less_Suc_eq_le)

text \<open>The sum of the lengths of the runs of one operation.\<close>

definition runLengths :: "char \<Rightarrow> (char \<times> nat) list \<Rightarrow> int" where
  "runLengths op runs = int (sum_list (map snd (filter (\<lambda>r. fst r = op) runs)))"

text \<open>
  The format in the words of the interface description: every token is a decimal length
  followed by an operation letter.
\<close>

function parseCigar_spec :: "string \<Rightarrow> (nat \<times> char) list option" where
  "parseCigar_spec [] = Some []"
| "parseCigar_spec (c # cs) =
     (case dropWhile isDigit (c # cs) of
        [] \<Rightarrow> None
      | op # rest \<Rightarrow>
          (if isDigit c \<and> isOpLetter op
           then (case parseCigar_spec rest of
                   None \<Rightarrow> None
                 | Some runs \<Rightarrow> Some ((natOfDigits (takeWhile isDigit (c # cs)), op) # runs))
           else None))"
  by pat_completeness auto
termination
proof (relation "measure length")
  show "wf (measure length)" by simp
next
  fix c :: char and cs x21 x22
  assume "dropWhile isDigit (c # cs) = x21 # x22"
  then have "length (x21 # x22) \<le> length (c # cs)"
    by (metis length_dropWhile_le)
  then show "(x22, c # cs) \<in> measure length" by simp
qed

text \<open>The first field of a result string: the characters before the first comma.\<close>

definition cigarField :: "string \<Rightarrow> string" where
  "cigarField result = takeWhile (\<lambda>c. c \<noteq> CHR '','') result"

text \<open>
  The fields of a result string are separated by commas: \<open>resultField n\<close> is the field
  number \<open>n\<close>, counted from 0, so that field 0 is the CIGAR field and fields 1 to 4 are
  \<open>s1Start\<close>, \<open>s1End\<close>, \<open>s2Start\<close> and \<open>s2End\<close> (lines 209--213).  \<open>readInt\<close> reads a field
  that \<^verbatim>\<open>std::to_string\<close> wrote for an \<^verbatim>\<open>int\<close>: decimal digits after an optional minus sign.
\<close>

fun resultField :: "nat \<Rightarrow> string \<Rightarrow> string" where
  "resultField 0 result = takeWhile (\<lambda>c. c \<noteq> CHR '','') result"
| "resultField (Suc n) result =
     resultField n (drop 1 (dropWhile (\<lambda>c. c \<noteq> CHR '','') result))"

definition readInt :: "string \<Rightarrow> int option" where
  "readInt s =
     (case s of
        [] \<Rightarrow> None
      | c # cs \<Rightarrow>
          if c = CHR ''-''
          then (if cs \<noteq> [] \<and> list_all isDigit cs then Some (- int (natOfDigits cs)) else None)
          else (if list_all isDigit s then Some (int (natOfDigits s)) else None))"

section \<open>Stand-ins for the parameters\<close>

text \<open>
  To evaluate the functions at concrete inputs the parameters need values.  The library
  stand-in never merges a seed, chains the first seed alone and takes its aligner as an
  argument.  \<open>leftAligned\<close> pairs the sequences position by position from the left and
  fills the shorter row with gaps.  \<open>endToEnd\<close> places the two sequences one after the
  other, so that no column pairs two bases.  \<open>scoredPlacement\<close> chooses between the two
  by the scoring scheme of line 102 (match 1, mismatch and gap -1, end gaps free): the
  pairing from the left if it scores more than 0, which is the score of the placement end
  to end.  For the sequences \<^verbatim>\<open>TAT\<close> and \<^verbatim>\<open>GAG\<close> it is the placement end to end: a column
  that pairs two of their bases costs more than the one match \<^verbatim>\<open>A\<close>/\<^verbatim>\<open>A\<close> gains, so every
  alignment of the two with such a column scores below 0.
\<close>

definition standInSeqAn :: "(string \<Rightarrow> string \<Rightarrow> string \<times> string) \<Rightarrow> Seed list SeqAn" where
  "standInSeqAn aligner =
     \<lparr>emptySeedSet = [],
      addSeedMerge = (\<lambda>seedSet seed. (False, seedSet)),
      addSeedSingle = (\<lambda>seedSet seed. seedSet @ [seed]),
      chainSeedsGlobally = (\<lambda>seedSet. take 1 seedSet),
      bandedChainAlignment = (\<lambda>s1 s2 seedChain bandSize. aligner s1 s2)\<rparr>"

definition leftAligned :: "string \<Rightarrow> string \<Rightarrow> string \<times> string" where
  "leftAligned s1 s2 =
     (s1 @ replicate (length s2 - length s1) (CHR ''-''),
      s2 @ replicate (length s1 - length s2) (CHR ''-''))"

definition endToEnd :: "string \<Rightarrow> string \<Rightarrow> string \<times> string" where
  "endToEnd s1 s2 =
     (s1 @ replicate (length s2) (CHR ''-''), replicate (length s1) (CHR ''-'') @ s2)"

definition pairedScore :: "string \<Rightarrow> string \<Rightarrow> int" where
  "pairedScore s1 s2 =
     sum_list (map (\<lambda>column. if fst column = snd column then 1 else - 1) (zip s1 s2))"

definition scoredPlacement :: "string \<Rightarrow> string \<Rightarrow> string \<times> string" where
  "scoredPlacement s1 s2 = (if 0 < pairedScore s1 s2 then leftAligned s1 s2 else endToEnd s1 s2)"

text \<open>
  The arithmetic stand-in is IEEE binary64 with rounding to nearest, ties to even.  A
  finite double is the rational it denotes, \<open>None\<close> is the NaN that \<^verbatim>\<open>0.0 / 0\<close> gives.
  \<open>roundBinary64 q\<close> is the double nearest to \<open>q\<close>: \<open>binaryExponent q\<close> is the \<open>e\<close> with
  \<open>2^e \<le> \<bar>q\<bar> < 2^(e+1)\<close>, the spacing of the doubles there is \<open>2^(e - 52)\<close>, and
  \<open>2^(-1074)\<close> below \<open>2^(-1022)\<close>.  Every operation rounds its exact result.  The stand-in
  has no infinities and no negative zero: magnitudes from \<open>2^1024\<close> on are outside it,
  and the quotient of a non-zero number by zero is \<open>None\<close> in it; no example reaches
  either.
\<close>

function log2floor :: "int \<Rightarrow> int" where
  "log2floor n = (if n < 2 then 0 else 1 + log2floor (n div 2))"
  by pat_completeness auto
termination
  by (relation "measure nat") auto

declare log2floor.simps [simp del]

definition twoPower :: "int \<Rightarrow> rat" where
  "twoPower e = (if 0 \<le> e then 2 ^ nat e else 1 / 2 ^ nat (- e))"

definition binaryExponent :: "rat \<Rightarrow> int" where
  "binaryExponent q =
     (let e = (if 1 \<le> \<bar>q\<bar> then log2floor \<lfloor>\<bar>q\<bar>\<rfloor> else - log2floor \<lfloor>1 / \<bar>q\<bar>\<rfloor> - 1)
      in if twoPower (e + 1) \<le> \<bar>q\<bar> then e + 1 else e)"

definition roundHalfEven :: "rat \<Rightarrow> int" where
  "roundHalfEven q =
     (let f = \<lfloor>q\<rfloor>
      in if q - of_int f < 1 / 2 then f
         else if 1 / 2 < q - of_int f then f + 1
         else if even f then f else f + 1)"

definition roundBinary64 :: "rat \<Rightarrow> rat" where
  "roundBinary64 q =
     (if q = 0 then 0
      else (let ulp = twoPower (max (binaryExponent q) (- 1022) - 52)
            in of_int (roundHalfEven (q / ulp)) * ulp))"

text \<open>The double that a decimal literal or an \<^verbatim>\<open>int\<close> converts to.\<close>

definition nearestDouble :: "rat \<Rightarrow> rat option" where
  "nearestDouble q = Some (roundBinary64 q)"

definition rounded2 :: "(rat \<Rightarrow> rat \<Rightarrow> rat) \<Rightarrow> rat option \<Rightarrow> rat option \<Rightarrow> rat option" where
  "rounded2 f x y =
     (case x of None \<Rightarrow> None
      | Some a \<Rightarrow> (case y of None \<Rightarrow> None | Some b \<Rightarrow> Some (roundBinary64 (f a b))))"

text \<open>
  \<^verbatim>\<open>std::to_string\<close> on a double is the format \<^verbatim>\<open>%f\<close>: six decimals, the exact value of the
  double rounded to them, ties to even.  The NaN of \<^verbatim>\<open>0.0 / 0\<close> has its sign bit set on
  x86-64 and is printed \<^verbatim>\<open>-nan\<close>.
\<close>

definition fixed6 :: "rat option \<Rightarrow> string" where
  "fixed6 x =
     (case x of
        None \<Rightarrow> ''-nan''
      | Some q \<Rightarrow>
          (let n = roundHalfEven (\<bar>q\<bar> * 1000000);
               frac = decimal (nat (n mod 1000000))
           in (if q < 0 then ''-'' else []) @ to_string (n div 1000000) @ ''.''
              @ replicate (6 - length frac) (CHR ''0'') @ frac))"

definition binary64Ops :: "rat option DoubleOps" where
  "binary64Ops =
     \<lparr>d_of_int = (\<lambda>n. nearestDouble (of_int n)),
      d_one = Some 1,
      d_hundred = Some 100,
      d_add = rounded2 (+),
      d_sub = rounded2 (-),
      d_mul = rounded2 (*),
      d_div = (\<lambda>x y. if y = Some 0 then None else rounded2 (/) x y),
      d_less = (\<lambda>x y. case x of None \<Rightarrow> False
                       | Some a \<Rightarrow> (case y of None \<Rightarrow> False | Some b \<Rightarrow> a < b)),
      d_to_string = fixed6\<rparr>"

section \<open>Runs, tokens and what the loop maintains\<close>

text \<open>
  A run is an operation with a length.  \<open>renderRuns\<close> is the text that the calls of
  \<open>getCigarPart\<close> (lines 176 and 201) append for a list of runs, \<open>runTotal\<close> the sum of
  the lengths of the runs of one operation, \<open>currentRun\<close> the length of the run being
  counted if it is of the given operation.
\<close>

type_synonym CigarRun = "CigarType \<times> int"

definition renderRuns :: "CigarRun list \<Rightarrow> string" where
  "renderRuns runs = concat (map (\<lambda>r. getCigarPart (fst r) (snd r)) runs)"

definition runTotal :: "CigarType \<Rightarrow> CigarRun list \<Rightarrow> int" where
  "runTotal t runs = sum_list (map snd (filter (\<lambda>r. fst r = t) runs))"

definition currentRun :: "CigarType \<Rightarrow> CigarState \<Rightarrow> int" where
  "currentRun t st = (if currentCigarType st = t then currentCigarLength st else 0)"

text \<open>The tokens of a list of runs: a run of type \<open>NOTHING\<close> has no letter and no token.\<close>

definition opLetter :: "CigarType \<Rightarrow> string" where
  "opLetter t =
     (if t = DELETION then ''D'' else if t = INSERTION then ''I''
      else if t = CLIP then ''S'' else if t = MATCH then ''M'' else [])"

definition runTokens :: "CigarRun list \<Rightarrow> (char \<times> nat) list" where
  "runTokens runs = concat (map (\<lambda>r. map (\<lambda>c. (c, nat (snd r))) (opLetter (fst r))) runs)"

fun renderToken :: "char \<times> nat \<Rightarrow> string" where
  "renderToken (c, n) = c # decimal n"

text \<open>The type that the loop body gives the column \<open>(base1, base2)\<close> in the state \<open>st\<close>.\<close>

definition columnType :: "CigarState \<Rightarrow> char \<Rightarrow> char \<Rightarrow> CigarType" where
  "columnType st base1 base2 =
     getCigarType base1 base2
       (alignmentStarted st \<or> (base1 \<noteq> CHR ''-'' \<and> base2 \<noteq> CHR ''-''))"

text \<open>
  After every iteration: the CIGAR string is the text of the runs closed so far, every
  run has a positive length, and the counts are the totals of the closed runs plus the
  run being counted.
\<close>

definition runsInv :: "CigarRun list \<Rightarrow> CigarState \<Rightarrow> bool" where
  "runsInv runs st =
     (cigarString st = renderRuns runs
      \<and> list_all (\<lambda>r. 1 \<le> snd r) runs
      \<and> 1 \<le> currentCigarLength st
      \<and> matchCount st + mismatchCount st = runTotal MATCH runs + currentRun MATCH st
      \<and> insertionCount st = runTotal INSERTION runs + currentRun INSERTION st
      \<and> deletionCount st = runTotal DELETION runs + currentRun DELETION st)"

text \<open>
  After every iteration: once the alignment has started, the bases of seq1 consumed since
  its start are the match, mismatch and insertion columns; before, the start positions
  are the initial \<open>-1\<close> and nothing is counted.
\<close>

definition coordInv :: "CigarState \<Rightarrow> bool" where
  "coordInv st =
     (if alignmentStarted st
      then s1Bases st - s1Start st = matchCount st + mismatchCount st + insertionCount st
      else s1Start st = - 1 \<and> s2Start st = - 1 \<and> matchCount st = 0 \<and> mismatchCount st = 0
           \<and> insertionCount st = 0 \<and> deletionCount st = 0)"

text \<open>
  The same for seq2 needs the columns with a gap in both rows: once the alignment has
  started the loop counts such a column as a Deletion (line 161) and consumes no base of
  seq2 (line 183).  \<open>doubleGaps\<close> counts them over the values of \<open>i\<close>, from the flag
  \<open>alignmentStarted\<close>; \<open>doubleGapColumns\<close> is their number in a whole alignment.  The
  rows of an alignment have no such column.
\<close>

fun doubleGaps :: "string \<Rightarrow> string \<Rightarrow> nat list \<Rightarrow> bool \<Rightarrow> int" where
  "doubleGaps s1Alignment s2Alignment [] started = 0"
| "doubleGaps s1Alignment s2Alignment (i # idxs) started =
     (if started \<and> charAt s1Alignment i = Inr (CHR ''-'') \<and> charAt s2Alignment i = Inr (CHR ''-'')
      then 1 else 0)
     + doubleGaps s1Alignment s2Alignment idxs
         (started \<or> (charAt s1Alignment i \<noteq> Inr (CHR ''-'')
                     \<and> charAt s2Alignment i \<noteq> Inr (CHR ''-'')))"

definition doubleGapColumns :: "string \<Rightarrow> string \<Rightarrow> int" where
  "doubleGapColumns s1Alignment s2Alignment =
     doubleGaps s1Alignment s2Alignment
       [0 ..< nat (alignmentLength s1Alignment s2Alignment)] False"

text \<open>After every iteration: each position list has as many entries as its count.\<close>

definition positionsInv :: "CigarState \<Rightarrow> bool" where
  "positionsInv st =
     (int (length (s2MismatchPositions st)) = mismatchCount st
      \<and> int (length (s2InsertionPositions st)) = insertionCount st
      \<and> int (length (s2DeletionPositions st)) = deletionCount st)"



section \<open>Properties\<close>

subsection \<open>K-mers\<close>

lemma to_size_t_nonneg: "0 \<le> k \<Longrightarrow> k \<le> INT_MAX \<Longrightarrow> to_size_t k = nat k"
  by (simp add: to_size_t_def INT_MAX_def)

lemma kmersAt_in_range:
  assumes "0 \<le> kSize" and "kSize \<le> INT_MAX" and "\<forall>i \<in> set idxs. i \<le> length seq"
  shows "kmersAt seq kSize idxs =
           Inr (map (\<lambda>i. (take (nat kSize) (drop i seq), int i, int i + kSize)) idxs)"
  using assms(3)
  by (induction idxs) (simp_all add: substr_def to_size_t_nonneg[OF assms(1,2)])

text \<open>
  Claim C7, as amended.  On a sequence of length \<open>strLen\<close> and for \<open>0 \<le> kSize \<le> strLen\<close>,
  \<open>getSeqKmers\<close> returns \<open>strLen - kSize\<close> k-mers, none when \<open>kSize = strLen\<close>; the \<open>i\<close>-th is
  the substring at positions \<open>[i, i + kSize)\<close> with the offsets \<open>i\<close> and \<open>i + kSize\<close>.
\<close>

theorem getSeqKmers_windows:
  assumes "int (length seq) = strLen" and "strLen \<le> INT_MAX"
    and "0 \<le> kSize" and "kSize \<le> strLen"
  shows "getSeqKmers seq strLen kSize =
           Inr (map (\<lambda>i. (take (nat kSize) (drop i seq), int i, int i + kSize))
                    [0 ..< nat (strLen - kSize)])"
proof -
  have r: "in_int (strLen - kSize)"
    using assms by (simp add: in_int_def INT_MAX_def INT_MIN_def)
  have k: "kSize \<le> INT_MAX" using assms by simp
  have "\<forall>i \<in> set [0 ..< nat (strLen - kSize)]. i \<le> length seq"
    using assms by auto
  from kmersAt_in_range[OF assms(3) k this] r assms show ?thesis
    by (simp add: getSeqKmers_def)
qed

text \<open>The theorem at a sequence of four bases, for \<open>kSize = 2\<close> and for \<open>kSize = strLen\<close>.\<close>

theorem getSeqKmers_windows_witness:
  "int (length ''ACGT'') = 4 \<and> (4::int) \<le> INT_MAX \<and> (0::int) \<le> 2 \<and> (2::int) \<le> 4
   \<and> getSeqKmers ''ACGT'' 4 2 = Inr [(''AC'', 0, 2), (''CG'', 1, 3)]
   \<and> getSeqKmers ''ACGT'' 4 4 = Inr []"
  using getSeqKmers_windows[of "''ACGT''" 4 2] getSeqKmers_windows[of "''ACGT''" 4 4]
  by (simp add: INT_MAX_def upt_rec)

text \<open>
  Claim C7 as stated fails for \<open>kSize = 0\<close>: the count is \<open>strLen - kSize = strLen\<close>, and
  the result holds that many empty k-mers.
\<close>

theorem getSeqKmers_zero_kSize_counterexample:
  "getSeqKmers ''AC'' 2 0 = Inr [([], 0, 0), ([], 1, 1)] \<and> getSeqKmers ''AC'' 2 0 \<noteq> Inr []"
  by (simp add: getSeqKmers_def in_int_def INT_MIN_def INT_MAX_def upt_rec substr_def
      to_size_t_def)

text \<open>For \<open>kSize > strLen\<close> the call \<^verbatim>\<open>reserve(kCount)\<close> throws.\<close>

lemma getSeqKmers_kSize_above_strLen:
  assumes "strLen < kSize" and "in_int (strLen - kSize)"
  shows "getSeqKmers seq strLen kSize = Inl LengthError"
  using assms by (simp add: getSeqKmers_def)

subsection \<open>Common locations\<close>

lemma storeKmers_lookup:
  "storeKmers kmers d content =
     (case lastOccurrence kmers content of None \<Rightarrow> d content | Some p \<Rightarrow> Some p)"
proof (induction kmers arbitrary: d)
  case Nil
  show ?case by (simp add: lastOccurrence_def)
next
  case (Cons k kmers)
  obtain c a b where k: "k = (c, a, b)" by (cases k) auto
  show ?case
    by (simp add: k Cons.IH lastOccurrence_def split: list.splits)
qed

lemma storeKmers_empty: "storeKmers kmers Map.empty = lastOccurrence kmers"
  by (rule ext) (simp add: storeKmers_lookup split: option.splits)

lemma lookupKmers_lastOccurrence:
  "lookupKmers (lastOccurrence s1Kmers) s2Kmers = getCommonLocations_spec s1Kmers s2Kmers"
  unfolding getCommonLocations_spec_def
  by (induction s2Kmers) (auto simp: commonLocation_spec_def split: option.splits)

text \<open>
  Claim C9.  \<open>getCommonLocations\<close> computes what its contract says: the map holds for
  every content the position of its last occurrence among the k-mers of seq1, and every
  k-mer of seq2 whose content is a key gives exactly one common location, that stored
  position with its own, in the order of the k-mers of seq2.
\<close>

theorem getCommonLocations_last_wins:
  assumes "int (length s1Kmers) \<le> INT_MAX" and "int (length s2Kmers) \<le> INT_MAX"
  shows "getCommonLocations s1Kmers s2Kmers = Inr (getCommonLocations_spec s1Kmers s2Kmers)"
  using assms
  by (simp add: getCommonLocations_def storeKmers_empty lookupKmers_lastOccurrence)

text \<open>The theorem at k-mer lists in which \<^verbatim>\<open>AC\<close> occurs twice on both sides.\<close>

theorem getCommonLocations_last_wins_witness:
  "int (length [(''AC'', 0, 2), (''CA'', 1, 3), (''AC'', 2, 4)]) \<le> INT_MAX
   \<and> int (length [(''AC'', 0, 2), (''GG'', 1, 3), (''AC'', 2, 4)]) \<le> INT_MAX
   \<and> getCommonLocations [(''AC'', 0, 2), (''CA'', 1, 3), (''AC'', 2, 4)]
                        [(''AC'', 0, 2), (''GG'', 1, 3), (''AC'', 2, 4)]
       = Inr [(2, 4, 0, 2), (2, 4, 2, 4)]"
  using getCommonLocations_last_wins[of "[(''AC'', 0, 2), (''CA'', 1, 3), (''AC'', 2, 4)]"
      "[(''AC'', 0, 2), (''GG'', 1, 3), (''AC'', 2, 4)]"]
  by (simp add: INT_MAX_def getCommonLocations_spec_def commonLocation_spec_def
      lastOccurrence_def)

subsection \<open>The blocks of the loop body\<close>

text \<open>What each block of the loop body leaves unchanged, and what it changes.\<close>

lemma startAlignment_frame:
  shows "cigarString (startAlignment b1 b2 st) = cigarString st"
    and "currentCigarType (startAlignment b1 b2 st) = currentCigarType st"
    and "currentCigarLength (startAlignment b1 b2 st) = currentCigarLength st"
    and "matchCount (startAlignment b1 b2 st) = matchCount st"
    and "mismatchCount (startAlignment b1 b2 st) = mismatchCount st"
    and "insertionCount (startAlignment b1 b2 st) = insertionCount st"
    and "deletionCount (startAlignment b1 b2 st) = deletionCount st"
    and "s2MismatchPositions (startAlignment b1 b2 st) = s2MismatchPositions st"
    and "s2InsertionPositions (startAlignment b1 b2 st) = s2InsertionPositions st"
    and "s2DeletionPositions (startAlignment b1 b2 st) = s2DeletionPositions st"
    and "s1Bases (startAlignment b1 b2 st) = s1Bases st"
    and "s2Bases (startAlignment b1 b2 st) = s2Bases st"
  by (simp_all add: startAlignment_def)

lemma setFirstType_frame:
  shows "cigarString (setFirstType i t st) = cigarString st"
    and "currentCigarLength (setFirstType i t st) = currentCigarLength st"
    and "matchCount (setFirstType i t st) = matchCount st"
    and "mismatchCount (setFirstType i t st) = mismatchCount st"
    and "insertionCount (setFirstType i t st) = insertionCount st"
    and "deletionCount (setFirstType i t st) = deletionCount st"
    and "s2MismatchPositions (setFirstType i t st) = s2MismatchPositions st"
    and "s2InsertionPositions (setFirstType i t st) = s2InsertionPositions st"
    and "s2DeletionPositions (setFirstType i t st) = s2DeletionPositions st"
    and "s1Start (setFirstType i t st) = s1Start st"
    and "s2Start (setFirstType i t st) = s2Start st"
    and "s1Bases (setFirstType i t st) = s1Bases st"
    and "s2Bases (setFirstType i t st) = s2Bases st"
    and "alignmentStarted (setFirstType i t st) = alignmentStarted st"
  by (simp_all add: setFirstType_def)

lemma countColumn_frame:
  shows "cigarString (countColumn t b1 b2 st) = cigarString st"
    and "currentCigarType (countColumn t b1 b2 st) = currentCigarType st"
    and "currentCigarLength (countColumn t b1 b2 st) = currentCigarLength st"
    and "s1Start (countColumn t b1 b2 st) = s1Start st"
    and "s2Start (countColumn t b1 b2 st) = s2Start st"
    and "s1Bases (countColumn t b1 b2 st) = s1Bases st"
    and "s2Bases (countColumn t b1 b2 st) = s2Bases st"
    and "alignmentStarted (countColumn t b1 b2 st) = alignmentStarted st"
  by (simp_all add: countColumn_def)

lemma extendRun_frame:
  shows "matchCount (extendRun t st) = matchCount st"
    and "mismatchCount (extendRun t st) = mismatchCount st"
    and "insertionCount (extendRun t st) = insertionCount st"
    and "deletionCount (extendRun t st) = deletionCount st"
    and "s2MismatchPositions (extendRun t st) = s2MismatchPositions st"
    and "s2InsertionPositions (extendRun t st) = s2InsertionPositions st"
    and "s2DeletionPositions (extendRun t st) = s2DeletionPositions st"
    and "s1Start (extendRun t st) = s1Start st"
    and "s2Start (extendRun t st) = s2Start st"
    and "s1Bases (extendRun t st) = s1Bases st"
    and "s2Bases (extendRun t st) = s2Bases st"
    and "alignmentStarted (extendRun t st) = alignmentStarted st"
  by (simp_all add: extendRun_def)

lemma countBases_frame:
  shows "cigarString (countBases b1 b2 st) = cigarString st"
    and "currentCigarType (countBases b1 b2 st) = currentCigarType st"
    and "currentCigarLength (countBases b1 b2 st) = currentCigarLength st"
    and "matchCount (countBases b1 b2 st) = matchCount st"
    and "mismatchCount (countBases b1 b2 st) = mismatchCount st"
    and "insertionCount (countBases b1 b2 st) = insertionCount st"
    and "deletionCount (countBases b1 b2 st) = deletionCount st"
    and "s2MismatchPositions (countBases b1 b2 st) = s2MismatchPositions st"
    and "s2InsertionPositions (countBases b1 b2 st) = s2InsertionPositions st"
    and "s2DeletionPositions (countBases b1 b2 st) = s2DeletionPositions st"
    and "s1Start (countBases b1 b2 st) = s1Start st"
    and "s2Start (countBases b1 b2 st) = s2Start st"
    and "alignmentStarted (countBases b1 b2 st) = alignmentStarted st"
  by (simp_all add: countBases_def Let_def)

lemma startAlignment_effect:
  shows "alignmentStarted (startAlignment b1 b2 st) =
           (alignmentStarted st \<or> (b1 \<noteq> CHR ''-'' \<and> b2 \<noteq> CHR ''-''))"
    and "s1Start (startAlignment b1 b2 st) =
           (if b1 \<noteq> CHR ''-'' \<and> b2 \<noteq> CHR ''-'' \<and> \<not> alignmentStarted st
            then s1Bases st else s1Start st)"
    and "s2Start (startAlignment b1 b2 st) =
           (if b1 \<noteq> CHR ''-'' \<and> b2 \<noteq> CHR ''-'' \<and> \<not> alignmentStarted st
            then s2Bases st else s2Start st)"
  by (auto simp: startAlignment_def)

lemma setFirstType_effect:
  "currentCigarType (setFirstType i t st) = (if i = 0 then t else currentCigarType st)"
  by (simp add: setFirstType_def)

lemma countColumn_effect:
  shows "matchCount (countColumn t b1 b2 st) =
           matchCount st + (if t = MATCH \<and> b1 = b2 then 1 else 0)"
    and "mismatchCount (countColumn t b1 b2 st) =
           mismatchCount st + (if t = MATCH \<and> b1 \<noteq> b2 then 1 else 0)"
    and "insertionCount (countColumn t b1 b2 st) =
           insertionCount st + (if t = INSERTION then 1 else 0)"
    and "deletionCount (countColumn t b1 b2 st) =
           deletionCount st + (if t = DELETION then 1 else 0)"
    and "s2MismatchPositions (countColumn t b1 b2 st) =
           s2MismatchPositions st @ (if t = MATCH \<and> b1 \<noteq> b2 then [s2Bases st] else [])"
    and "s2InsertionPositions (countColumn t b1 b2 st) =
           s2InsertionPositions st @ (if t = INSERTION then [s2Bases st] else [])"
    and "s2DeletionPositions (countColumn t b1 b2 st) =
           s2DeletionPositions st @ (if t = DELETION then [s2Bases st] else [])"
  by (simp_all add: countColumn_def)

lemma extendRun_effect:
  shows "cigarString (extendRun t st) =
           (if t = currentCigarType st then cigarString st
            else cigarString st @ getCigarPart (currentCigarType st) (currentCigarLength st))"
    and "currentCigarType (extendRun t st) = t"
    and "currentCigarLength (extendRun t st) =
           (if t = currentCigarType st then currentCigarLength st + 1 else 1)"
  by (simp_all add: extendRun_def)

lemma countBases_effect:
  shows "s1Bases (countBases b1 b2 st) = s1Bases st + (if b1 \<noteq> CHR ''-'' then 1 else 0)"
    and "s2Bases (countBases b1 b2 st) = s2Bases st + (if b2 \<noteq> CHR ''-'' then 1 else 0)"
  by (simp_all add: countBases_def Let_def)

lemmas block_simps =
  startAlignment_frame startAlignment_effect setFirstType_frame setFirstType_effect
  countColumn_frame countColumn_effect extendRun_frame extendRun_effect
  countBases_frame countBases_effect

lemma cigarStep_run:
  shows "currentCigarType (cigarStep i b1 b2 st) = columnType st b1 b2"
    and "cigarString (cigarStep i b1 b2 st) =
           (if i = 0 \<or> columnType st b1 b2 = currentCigarType st then cigarString st
            else cigarString st @ getCigarPart (currentCigarType st) (currentCigarLength st))"
    and "currentCigarLength (cigarStep i b1 b2 st) =
           (if i = 0 \<or> columnType st b1 b2 = currentCigarType st
            then currentCigarLength st + 1 else 1)"
  by (simp_all add: cigarStep_def Let_def columnType_def block_simps)

lemma cigarStep_counts:
  shows "matchCount (cigarStep i b1 b2 st) =
           matchCount st + (if columnType st b1 b2 = MATCH \<and> b1 = b2 then 1 else 0)"
    and "mismatchCount (cigarStep i b1 b2 st) =
           mismatchCount st + (if columnType st b1 b2 = MATCH \<and> b1 \<noteq> b2 then 1 else 0)"
    and "insertionCount (cigarStep i b1 b2 st) =
           insertionCount st + (if columnType st b1 b2 = INSERTION then 1 else 0)"
    and "deletionCount (cigarStep i b1 b2 st) =
           deletionCount st + (if columnType st b1 b2 = DELETION then 1 else 0)"
  by (simp_all add: cigarStep_def Let_def columnType_def block_simps)

lemma cigarStep_positions:
  shows "s2MismatchPositions (cigarStep i b1 b2 st) =
           s2MismatchPositions st
           @ (if columnType st b1 b2 = MATCH \<and> b1 \<noteq> b2 then [s2Bases st] else [])"
    and "s2InsertionPositions (cigarStep i b1 b2 st) =
           s2InsertionPositions st @ (if columnType st b1 b2 = INSERTION then [s2Bases st] else [])"
    and "s2DeletionPositions (cigarStep i b1 b2 st) =
           s2DeletionPositions st @ (if columnType st b1 b2 = DELETION then [s2Bases st] else [])"
  by (simp_all add: cigarStep_def Let_def columnType_def block_simps)

lemma cigarStep_coords:
  shows "alignmentStarted (cigarStep i b1 b2 st) =
           (alignmentStarted st \<or> (b1 \<noteq> CHR ''-'' \<and> b2 \<noteq> CHR ''-''))"
    and "s1Start (cigarStep i b1 b2 st) =
           (if b1 \<noteq> CHR ''-'' \<and> b2 \<noteq> CHR ''-'' \<and> \<not> alignmentStarted st
            then s1Bases st else s1Start st)"
    and "s2Start (cigarStep i b1 b2 st) =
           (if b1 \<noteq> CHR ''-'' \<and> b2 \<noteq> CHR ''-'' \<and> \<not> alignmentStarted st
            then s2Bases st else s2Start st)"
    and "s1Bases (cigarStep i b1 b2 st) = s1Bases st + (if b1 \<noteq> CHR ''-'' then 1 else 0)"
    and "s2Bases (cigarStep i b1 b2 st) = s2Bases st + (if b2 \<noteq> CHR ''-'' then 1 else 0)"
  by (simp_all add: cigarStep_def Let_def block_simps)

lemmas cigarStep_simps = cigarStep_run cigarStep_counts cigarStep_positions cigarStep_coords

subsection \<open>One iteration keeps the invariants\<close>

text \<open>
  The invariants are kept by one iteration, whatever the column; the one on the runs needs
  \<open>i > 0\<close>, the first iteration establishes it.
\<close>

lemma columnType_cases:
  shows "columnType st b1 b2 = MATCH \<longleftrightarrow> b1 \<noteq> CHR ''-'' \<and> b2 \<noteq> CHR ''-''"
    and "columnType st b1 b2 = INSERTION \<longleftrightarrow>
           b1 \<noteq> CHR ''-'' \<and> b2 = CHR ''-'' \<and> alignmentStarted st"
    and "columnType st b1 b2 = DELETION \<longleftrightarrow> b1 = CHR ''-'' \<and> alignmentStarted st"
    and "columnType st b1 b2 = CLIP \<longleftrightarrow>
           b1 \<noteq> CHR ''-'' \<and> b2 = CHR ''-'' \<and> \<not> alignmentStarted st"
    and "columnType st b1 b2 = NOTHING \<longleftrightarrow> b1 = CHR ''-'' \<and> \<not> alignmentStarted st"
  by (auto simp: columnType_def getCigarType_def)

lemma renderRuns_append: "renderRuns (xs @ ys) = renderRuns xs @ renderRuns ys"
  by (simp add: renderRuns_def)

lemma runTotal_append: "runTotal t (xs @ ys) = runTotal t xs + runTotal t ys"
  by (simp add: runTotal_def)

lemma runTotal_single: "runTotal t [(u, n)] = (if u = t then n else 0)"
  by (simp add: runTotal_def)

lemma renderRuns_single: "renderRuns [(u, n)] = getCigarPart u n"
  by (simp add: renderRuns_def)

lemma runTotal_nonneg: "list_all (\<lambda>r. 1 \<le> snd r) runs \<Longrightarrow> 0 \<le> runTotal t runs"
  by (induction runs) (auto simp: runTotal_def)

lemma cigarStep_runsInv:
  assumes "0 < i" and "runsInv runs st"
  shows "runsInv (if columnType st b1 b2 = currentCigarType st then runs
                  else runs @ [(currentCigarType st, currentCigarLength st)])
                 (cigarStep i b1 b2 st)"
  using assms
  unfolding runsInv_def currentRun_def cigarStep_run cigarStep_counts
  by (auto simp: renderRuns_append runTotal_append runTotal_single renderRuns_single)

lemma cigarStep_coordInv:
  assumes "coordInv st"
  shows "coordInv (cigarStep i b1 b2 st)"
  using assms
  unfolding coordInv_def cigarStep_coords cigarStep_counts columnType_cases
  by (auto split: if_splits)

lemma cigarStep_positionsInv:
  assumes "positionsInv st"
  shows "positionsInv (cigarStep i b1 b2 st)"
  using assms
  unfolding positionsInv_def cigarStep_positions cigarStep_counts
  by auto

lemma first_step_runsInv: "runsInv [] (cigarStep 0 b1 b2 initialCigarState)"
  unfolding runsInv_def currentRun_def cigarStep_run cigarStep_counts columnType_cases
  by (auto simp: initialCigarState_def renderRuns_def runTotal_def)

lemma initial_coordInv: "coordInv initialCigarState" "positionsInv initialCigarState"
  by (simp_all add: coordInv_def positionsInv_def initialCigarState_def)

subsection \<open>Decimal numbers and tokens\<close>

text \<open>
  \<open>decimal\<close> writes digits only and \<open>natOfDigits\<close> reads them back, so the text of a list
  of runs parses into the tokens of the runs.
\<close>

lemma digit_char_digit:
  assumes "d < 10"
  shows "isDigit (digit_char d)" and "digitValue (digit_char d) = d"
proof -
  from assms have "d = 0 \<or> d = 1 \<or> d = 2 \<or> d = 3 \<or> d = 4 \<or> d = 5 \<or> d = 6 \<or> d = 7 \<or> d = 8 \<or> d = 9"
    by arith
  then show "isDigit (digit_char d)" and "digitValue (digit_char d) = d"
    by (auto simp: isDigit_def digitValue_def digit_char_def)
qed

lemma decimal_digits: "list_all isDigit (decimal n)"
proof (induction n rule: decimal.induct)
  case (1 n)
  show ?case
  proof (cases rule: case_split[of "n < 10"])
    case True
    then show ?thesis by (simp add: decimal.simps[of n] digit_char_digit)
  next
    case False
    with 1 show ?thesis by (simp add: decimal.simps[of n] digit_char_digit)
  qed
qed

lemma decimal_nonempty: "decimal n \<noteq> []"
  by (simp add: decimal.simps[of n])

lemma natOfDigits_snoc: "natOfDigits (ds @ [c]) = 10 * natOfDigits ds + digitValue c"
  by (simp add: natOfDigits_def)

lemma natOfDigits_decimal: "natOfDigits (decimal n) = n"
proof (induction n rule: decimal.induct)
  case (1 n)
  show ?case
  proof (cases rule: case_split[of "n < 10"])
    case True
    then show ?thesis
      by (simp add: decimal.simps[of n] natOfDigits_def digit_char_digit)
  next
    case False
    with 1 have "natOfDigits (decimal (n div 10)) = n div 10" by simp
    with False show ?thesis
      by (simp add: decimal.simps[of n] natOfDigits_snoc digit_char_digit)
  qed
qed

lemma opLetter_not_digit: "isOpLetter c \<Longrightarrow> \<not> isDigit c"
  by (auto simp: isOpLetter_def isDigit_def)

lemma takeWhile_decimal:
  assumes "rest = [] \<or> \<not> isDigit (hd rest)"
  shows "takeWhile isDigit (decimal n @ rest) = decimal n"
    and "dropWhile isDigit (decimal n @ rest) = rest"
proof -
  have d: "\<And>x. x \<in> set (decimal n) \<Longrightarrow> isDigit x"
    using decimal_digits[of n] by (simp add: list_all_iff)
  have t: "takeWhile isDigit rest = []" and r: "dropWhile isDigit rest = rest"
    using assms by (cases rest; auto)+
  show "takeWhile isDigit (decimal n @ rest) = decimal n"
    using d t by (simp add: takeWhile_append2)
  show "dropWhile isDigit (decimal n @ rest) = rest"
    using d r by (simp add: dropWhile_append2)
qed

lemma getCigarPart_opLetter:
  "0 \<le> n \<Longrightarrow> getCigarPart t n = concat (map (\<lambda>c. c # decimal (nat n)) (opLetter t))"
  by (simp add: getCigarPart_def opLetter_def to_string_def)

lemma renderRuns_tokens:
  "list_all (\<lambda>r. 0 \<le> snd r) runs \<Longrightarrow>
     renderRuns runs = concat (map renderToken (runTokens runs))"
proof (induction runs)
  case Nil
  show ?case by (simp add: renderRuns_def runTokens_def)
next
  case (Cons r runs)
  then have "renderRuns runs = concat (map renderToken (runTokens runs))" by simp
  moreover have "renderRuns (r # runs) = getCigarPart (fst r) (snd r) @ renderRuns runs"
    by (simp add: renderRuns_def)
  moreover have "runTokens (r # runs) = map (\<lambda>c. (c, nat (snd r))) (opLetter (fst r)) @ runTokens runs"
    by (simp add: runTokens_def)
  moreover from Cons.prems have "0 \<le> snd r" by simp
  ultimately show ?case
    by (simp add: getCigarPart_opLetter comp_def)
qed

lemma tokens_start:
  assumes "list_all (\<lambda>tok. isOpLetter (fst tok)) toks"
  shows "concat (map renderToken toks) = [] \<or> \<not> isDigit (hd (concat (map renderToken toks)))"
proof (cases toks)
  case Nil
  then show ?thesis by simp
next
  case (Cons tok rest)
  obtain c n where tok: "tok = (c, n)" by (cases tok) auto
  from assms Cons tok have "isOpLetter c" by simp
  then have "\<not> isDigit c" by (rule opLetter_not_digit)
  then show ?thesis by (simp add: Cons tok)
qed

lemma parseCigar_token_step:
  assumes "isOpLetter c" and "rest = [] \<or> \<not> isDigit (hd rest)"
    and "parseCigar rest = Some toks"
  shows "parseCigar (c # decimal n @ rest) = Some ((c, n) # toks)"
proof -
  have "takeWhile isDigit (decimal n @ rest) = decimal n"
    and "dropWhile isDigit (decimal n @ rest) = rest"
    by (rule takeWhile_decimal[OF assms(2)])+
  then show ?thesis
    using assms(1,3) by (simp add: decimal_nonempty natOfDigits_decimal)
qed

lemma parseCigar_tokens:
  "list_all (\<lambda>tok. isOpLetter (fst tok)) toks \<Longrightarrow>
     parseCigar (concat (map renderToken toks)) = Some toks"
proof (induction toks)
  case Nil
  show ?case by simp
next
  case (Cons tok toks)
  obtain c n where tok: "tok = (c, n)" by (cases tok) auto
  from Cons.prems have op: "isOpLetter c" and rest: "list_all (\<lambda>tok. isOpLetter (fst tok)) toks"
    by (simp_all add: tok)
  have "parseCigar (c # decimal n @ concat (map renderToken toks)) = Some ((c, n) # toks)"
    by (rule parseCigar_token_step[OF op tokens_start[OF rest] Cons.IH[OF rest]])
  then show ?case by (simp add: tok)
qed

lemma runTokens_Cons:
  "runTokens (r # runs) = map (\<lambda>c. (c, nat (snd r))) (opLetter (fst r)) @ runTokens runs"
  by (simp add: runTokens_def)

lemma runTokens_Nil: "runTokens [] = []"
  by (simp add: runTokens_def)

lemma opLetter_letters: "list_all isOpLetter (opLetter t)"
  by (simp add: opLetter_def isOpLetter_def)

lemma runTokens_letters: "list_all (\<lambda>tok. isOpLetter (fst tok)) (runTokens runs)"
proof (induction runs)
  case Nil
  show ?case by (simp add: runTokens_Nil)
next
  case (Cons r runs)
  have "list_all (\<lambda>tok. isOpLetter (fst tok)) (map (\<lambda>c. (c, nat (snd r))) (opLetter (fst r)))"
    using opLetter_letters[of "fst r"] by (simp add: list_all_iff)
  with Cons.IH show ?case by (simp add: runTokens_Cons)
qed

lemma parseCigar_renderRuns:
  assumes "list_all (\<lambda>r. 0 \<le> snd r) runs"
  shows "parseCigar (renderRuns runs) = Some (runTokens runs)"
  by (simp add: renderRuns_tokens[OF assms] parseCigar_tokens[OF runTokens_letters])

lemma runLengths_Nil: "runLengths op [] = 0"
  by (simp add: runLengths_def)

lemma runLengths_append: "runLengths op (xs @ ys) = runLengths op xs + runLengths op ys"
  by (simp add: runLengths_def)

lemma runTotal_Cons: "runTotal t (r # runs) = (if fst r = t then snd r else 0) + runTotal t runs"
  by (simp add: runTotal_def)

lemma runLengths_one_run:
  assumes "0 \<le> snd r"
  shows "runLengths (CHR ''M'') (map (\<lambda>c. (c, nat (snd r))) (opLetter (fst r)))
           = (if fst r = MATCH then snd r else 0)"
    and "runLengths (CHR ''I'') (map (\<lambda>c. (c, nat (snd r))) (opLetter (fst r)))
           = (if fst r = INSERTION then snd r else 0)"
    and "runLengths (CHR ''D'') (map (\<lambda>c. (c, nat (snd r))) (opLetter (fst r)))
           = (if fst r = DELETION then snd r else 0)"
  using assms by (simp_all add: runLengths_def opLetter_def)

lemma runLengths_runTokens:
  assumes "list_all (\<lambda>r. 0 \<le> snd r) runs"
  shows "runLengths (CHR ''M'') (runTokens runs) = runTotal MATCH runs
       \<and> runLengths (CHR ''I'') (runTokens runs) = runTotal INSERTION runs
       \<and> runLengths (CHR ''D'') (runTokens runs) = runTotal DELETION runs"
  using assms
proof (induction runs)
  case Nil
  show ?case by (simp add: runTokens_Nil runLengths_Nil runTotal_def)
next
  case (Cons r runs)
  then have r: "0 \<le> snd r" and IH: "runLengths (CHR ''M'') (runTokens runs) = runTotal MATCH runs"
    "runLengths (CHR ''I'') (runTokens runs) = runTotal INSERTION runs"
    "runLengths (CHR ''D'') (runTokens runs) = runTotal DELETION runs"
    by simp_all
  show ?case
    by (simp only: runTokens_Cons runLengths_append runLengths_one_run[OF r] IH runTotal_Cons
        simp_thms)
qed

lemma runTokens_positive:
  assumes "list_all (\<lambda>r. 1 \<le> snd r) runs"
  shows "list_all (\<lambda>tok. 1 \<le> snd tok) (runTokens runs)"
  using assms
proof (induction runs)
  case Nil
  show ?case by (simp add: runTokens_Nil)
next
  case (Cons r runs)
  then have "1 \<le> snd r" and IH: "list_all (\<lambda>tok. 1 \<le> snd tok) (runTokens runs)" by simp_all
  then have "list_all (\<lambda>tok. 1 \<le> snd tok) (map (\<lambda>c. (c, nat (snd r))) (opLetter (fst r)))"
    by (auto simp: list_all_iff)
  with IH show ?case by (simp add: runTokens_Cons)
qed

subsection \<open>The loop keeps the invariants\<close>

lemma cigarLoop_invariant:
  assumes "cigarLoop s1A s2A idxs st = Inr st'"
    and "P st"
    and "\<And>i b1 b2 s. i \<in> set idxs \<Longrightarrow> charAt s1A i = Inr b1 \<Longrightarrow> charAt s2A i = Inr b2
           \<Longrightarrow> P s \<Longrightarrow> P (cigarStep i b1 b2 s)"
  shows "P st'"
  using assms
proof (induction idxs arbitrary: st)
  case Nil
  then show ?case by simp
next
  case (Cons i idxs)
  from Cons.prems(1) obtain b1 b2 where
    r: "charAt s1A i = Inr b1" "charAt s2A i = Inr b2"
    and l: "cigarLoop s1A s2A idxs (cigarStep i b1 b2 st) = Inr st'"
    by (auto split: sum.splits)
  have "P (cigarStep i b1 b2 st)"
    using Cons.prems(3)[OF _ r Cons.prems(2)] by simp
  from Cons.IH[OF l this] Cons.prems(3) show ?case by simp
qed

lemma cigarLoop_runsInv:
  assumes "cigarLoop s1A s2A idxs st = Inr st'" and "\<forall>i \<in> set idxs. 0 < i"
    and "\<exists>runs. runsInv runs st"
  shows "\<exists>runs. runsInv runs st'"
proof (rule cigarLoop_invariant[OF assms(1), where P = "\<lambda>s. \<exists>runs. runsInv runs s"])
  show "\<exists>runs. runsInv runs st" by (rule assms(3))
next
  fix i b1 b2 s
  assume "i \<in> set idxs" and "\<exists>runs. runsInv runs s"
  then obtain runs where "0 < i" and "runsInv runs s" using assms(2) by auto
  from cigarStep_runsInv[OF this] show "\<exists>runs. runsInv runs (cigarStep i b1 b2 s)" by blast
qed

lemma cigarLoop_coordInv:
  assumes "cigarLoop s1A s2A idxs st = Inr st'" and "coordInv st"
  shows "coordInv st'"
  by (rule cigarLoop_invariant[OF assms(1), where P = coordInv, OF assms(2)])
     (rule cigarStep_coordInv)

lemma cigarLoop_positionsInv:
  assumes "cigarLoop s1A s2A idxs st = Inr st'" and "positionsInv st"
  shows "positionsInv st'"
  by (rule cigarLoop_invariant[OF assms(1), where P = positionsInv, OF assms(2)])
     (rule cigarStep_positionsInv)



subsection \<open>The statistics of a whole alignment\<close>

lemma to_int_in_range: "0 \<le> x \<Longrightarrow> x \<le> INT_MAX \<Longrightarrow> to_int x = x"
  by (simp add: to_int_def INT_MAX_def)

lemma alignmentLength_in_range:
  assumes "int (length s1A) \<le> INT_MAX" and "int (length s2A) \<le> INT_MAX"
  shows "alignmentLength s1A s2A = int (max (length s1A) (length s2A))"
  using assms by (simp add: alignmentLength_def to_int_in_range)

lemma cigarStats_loop:
  assumes "cigarStats s1A s2A = Inr (Some res)"
  obtains st where
    "0 < alignmentLength s1A s2A"
    "cigarLoop s1A s2A [0 ..< nat (alignmentLength s1A s2A)]
       initialCigarState = Inr st"
    "res = finishCigar st"
  using assms
  by (auto simp: cigarStats_def split: if_splits sum.splits)

lemma loop_first_step:
  assumes "cigarLoop s1A s2A [0 ..< n] initialCigarState = Inr st" and "0 < n"
  obtains b1 b2 where "charAt s1A 0 = Inr b1" "charAt s2A 0 = Inr b2"
    "cigarLoop s1A s2A [Suc 0 ..< n] (cigarStep 0 b1 b2 initialCigarState) = Inr st"
proof -
  from assms(2) have "[0 ..< n] = 0 # [Suc 0 ..< n]" by (simp add: upt_conv_Cons)
  with assms(1) show ?thesis
    using that by (auto split: sum.splits)
qed

lemma loop_runsInv:
  assumes "cigarLoop s1A s2A [0 ..< n] initialCigarState = Inr st" and "0 < n"
  shows "\<exists>runs. runsInv runs st"
proof -
  from loop_first_step[OF assms] obtain b1 b2 where
    l: "cigarLoop s1A s2A [Suc 0 ..< n] (cigarStep 0 b1 b2 initialCigarState) = Inr st"
    by blast
  have "\<exists>runs. runsInv runs (cigarStep 0 b1 b2 initialCigarState)"
    using first_step_runsInv by blast
  from cigarLoop_runsInv[OF l _ this] show ?thesis by simp
qed

lemma finishCigar_fields:
  shows "cigarString (finishCigar st) =
           cigarString st @ getCigarPart (currentCigarType (finishCigar st)) (currentCigarLength st)"
    and "currentCigarType (finishCigar st) =
           (if currentCigarType st = INSERTION then CLIP
            else if currentCigarType st = DELETION then NOTHING else currentCigarType st)"
    and "matchCount (finishCigar st) = matchCount st"
    and "mismatchCount (finishCigar st) = mismatchCount st"
    and "insertionCount (finishCigar st) = insertionCount st - currentRun INSERTION st"
    and "deletionCount (finishCigar st) = deletionCount st - currentRun DELETION st"
    and "s1Start (finishCigar st) = s1Start st"
    and "s2Start (finishCigar st) = s2Start st"
    and "s1End (finishCigar st) = s1Bases st - currentRun INSERTION st"
    and "s2End (finishCigar st) = s2Bases st - currentRun DELETION st"
    and "alignmentStarted (finishCigar st) = alignmentStarted st"
    and "s2MismatchPositions (finishCigar st) = s2MismatchPositions st"
    and "s2InsertionPositions (finishCigar st) = s2InsertionPositions st"
    and "s2DeletionPositions (finishCigar st) = s2DeletionPositions st"
  by (simp_all add: finishCigar_def Let_def currentRun_def)

lemma finishCigar_runs:
  assumes "runsInv runs st"
  shows "\<exists>final. cigarString (finishCigar st) = renderRuns final
           \<and> list_all (\<lambda>r. 1 \<le> snd r) final
           \<and> runTotal MATCH final = matchCount (finishCigar st) + mismatchCount (finishCigar st)
           \<and> runTotal INSERTION final = insertionCount (finishCigar st)
           \<and> runTotal DELETION final = deletionCount (finishCigar st)"
proof -
  let ?final = "runs @ [(currentCigarType (finishCigar st), currentCigarLength st)]"
  from assms have "cigarString (finishCigar st) = renderRuns ?final"
    by (simp add: finishCigar_fields(1) runsInv_def renderRuns_append renderRuns_single)
  moreover from assms have "list_all (\<lambda>r. 1 \<le> snd r) ?final"
    by (simp add: runsInv_def)
  moreover from assms
  have "runTotal MATCH ?final = matchCount (finishCigar st) + mismatchCount (finishCigar st)"
    and "runTotal INSERTION ?final = insertionCount (finishCigar st)"
    and "runTotal DELETION ?final = deletionCount (finishCigar st)"
    by (auto simp: finishCigar_fields runsInv_def currentRun_def runTotal_append runTotal_single)
  ultimately show ?thesis by blast
qed

lemma positive_nonneg: "list_all (\<lambda>r. 1 \<le> snd r) runs \<Longrightarrow> list_all (\<lambda>r. (0::int) \<le> snd r) runs"
  by (induction runs) auto

lemma cigarStats_runs:
  assumes "cigarStats s1A s2A = Inr (Some res)"
  shows "\<exists>toks. parseCigar (cigarString res) = Some toks
           \<and> cigarString res = concat (map renderToken toks)
           \<and> list_all (\<lambda>tok. isOpLetter (fst tok)) toks
           \<and> list_all (\<lambda>tok. 1 \<le> snd tok) toks
           \<and> runLengths (CHR ''M'') toks = matchCount res + mismatchCount res
           \<and> runLengths (CHR ''I'') toks = insertionCount res
           \<and> runLengths (CHR ''D'') toks = deletionCount res"
proof -
  from cigarStats_loop[OF assms] obtain st where
    n: "0 < alignmentLength s1A s2A"
    and l: "cigarLoop s1A s2A [0 ..< nat (alignmentLength s1A s2A)]
              initialCigarState = Inr st"
    and res: "res = finishCigar st"
    by blast
  from n have "0 < nat (alignmentLength s1A s2A)" by simp
  from loop_runsInv[OF l this] obtain runs where "runsInv runs st" by blast
  from finishCigar_runs[OF this] obtain final where
    f: "cigarString res = renderRuns final" "list_all (\<lambda>r. 1 \<le> snd r) final"
       "runTotal MATCH final = matchCount res + mismatchCount res"
       "runTotal INSERTION final = insertionCount res"
       "runTotal DELETION final = deletionCount res"
    unfolding res by blast
  have nn: "list_all (\<lambda>r. 0 \<le> snd r) final" by (rule positive_nonneg[OF f(2)])
  have "parseCigar (cigarString res) = Some (runTokens final)"
    unfolding f(1) by (rule parseCigar_renderRuns[OF nn])
  moreover have "cigarString res = concat (map renderToken (runTokens final))"
    unfolding f(1) by (rule renderRuns_tokens[OF nn])
  moreover note runTokens_letters[of final] runTokens_positive[OF f(2)]
  moreover have "runLengths (CHR ''M'') (runTokens final) = matchCount res + mismatchCount res"
    "runLengths (CHR ''I'') (runTokens final) = insertionCount res"
    "runLengths (CHR ''D'') (runTokens final) = deletionCount res"
    using runLengths_runTokens[OF nn] f(3-5) by simp_all
  ultimately show ?thesis by blast
qed

subsection \<open>The result string and its record\<close>


lemma finalString_nonempty: "finalString ops ms res \<noteq> []"
  by (simp add: finalString_def)

lemma token_chars:
  assumes "list_all (\<lambda>tok. isOpLetter (fst tok)) toks"
    and "c \<in> set (concat (map renderToken toks))"
  shows "isOpLetter c \<or> isDigit c"
proof -
  from assms(2) obtain tok where t: "tok \<in> set toks" and c: "c \<in> set (renderToken tok)"
    by auto
  obtain l n where tok: "tok = (l, n)" by (cases tok) auto
  from t assms(1) have "isOpLetter l" by (auto simp: list_all_iff tok)
  moreover have "\<And>x. x \<in> set (decimal n) \<Longrightarrow> isDigit x"
    using decimal_digits[of n] by (simp add: list_all_iff)
  ultimately show ?thesis using c by (auto simp: tok)
qed

lemma cigarField_finalString:
  assumes "list_all (\<lambda>tok. isOpLetter (fst tok)) toks"
    and "cigarString res = concat (map renderToken toks)"
  shows "cigarField (finalString ops ms res) = cigarString res"
proof -
  have "\<And>c. c \<in> set (cigarString res) \<Longrightarrow> c \<noteq> CHR '',''"
  proof -
    fix c assume "c \<in> set (cigarString res)"
    with token_chars[OF assms(1)] assms(2) have "isOpLetter c \<or> isDigit c" by simp
    then show "c \<noteq> CHR '',''" by (auto simp: isOpLetter_def isDigit_def)
  qed
  then have "takeWhile (\<lambda>c. c \<noteq> CHR '','') (cigarString res @ CHR '','' # rest) = cigarString res"
    for rest
    by (simp add: takeWhile_tail)
  then show ?thesis
    by (simp add: cigarField_def finalString_def)
qed

lemma semiGlobalAlign_nonempty:
  assumes "semiGlobalAlign lib ops s1 s2 s1Len s2Len kSize bandSize allowed ms = Inr result"
    and "result \<noteq> []"
  obtains commonLocations res where
    "commonLocationsOf s1 s2 s1Len s2Len kSize = Inr commonLocations"
    "\<not> chainRejected ops (seedChainOf lib commonLocations) allowed"
    "cigarStats (fst (bandedChainAlignment lib s1 s2 (seedChainOf lib commonLocations) bandSize))
                (snd (bandedChainAlignment lib s1 s2 (seedChainOf lib commonLocations) bandSize))
       = Inr (Some res)"
    "result = finalString ops ms res"
proof -
  from assms(1) obtain commonLocations where
    c: "commonLocationsOf s1 s2 s1Len s2Len kSize = Inr commonLocations"
    and a: "alignChain lib ops s1 s2 bandSize allowed ms (seedChainOf lib commonLocations) = Inr result"
    by (auto simp: semiGlobalAlign_def split: sum.splits)
  from a assms(2) have r: "\<not> chainRejected ops (seedChainOf lib commonLocations) allowed"
    by (auto simp: alignChain_def chainRejected_def split: if_splits)
  from a assms(2) obtain res where
    "cigarStats (fst (bandedChainAlignment lib s1 s2 (seedChainOf lib commonLocations) bandSize))
                (snd (bandedChainAlignment lib s1 s2 (seedChainOf lib commonLocations) bandSize))
       = Inr (Some res)"
    "result = finalString ops ms res"
    by (auto simp: alignChain_def Let_def split: if_splits sum.splits option.splits)
  with c r show ?thesis using that by blast
qed

subsection \<open>The fields of the result string\<close>

lemma field_numerals:
  "resultField 1 = resultField (Suc 0)"
  "resultField 2 = resultField (Suc (Suc 0))"
  "resultField 3 = resultField (Suc (Suc (Suc 0)))"
  "resultField 4 = resultField (Suc (Suc (Suc (Suc 0))))"
  by (simp_all add: eval_nat_numeral)

lemma resultField_first:
  "CHR '','' \<notin> set a \<Longrightarrow> resultField 0 (a @ CHR '','' # rest) = a"
  by (auto simp: takeWhile_tail)

lemma resultField_next:
  assumes "CHR '','' \<notin> set a"
  shows "resultField (Suc n) (a @ CHR '','' # rest) = resultField n rest"
proof -
  from assms have "\<And>x. x \<in> set a \<Longrightarrow> x \<noteq> CHR '',''" by auto
  then have "dropWhile (\<lambda>c. c \<noteq> CHR '','') (a @ CHR '','' # rest) = CHR '','' # rest"
    by (simp add: dropWhile_append2)
  then show ?thesis by simp
qed

lemma to_string_chars:
  assumes "c \<in> set (to_string x)"
  shows "isDigit c \<or> c = CHR ''-''"
  using assms decimal_digits[of "nat x"] decimal_digits[of "nat (- x)"]
  by (auto simp: to_string_def list_all_iff split: if_splits)

lemma to_string_no_comma: "CHR '','' \<notin> set (to_string x)"
  using to_string_chars[of "CHR '',''" x] by (auto simp: isDigit_def)

lemma cigar_no_comma:
  assumes "list_all (\<lambda>tok. isOpLetter (fst tok)) toks"
    and "cigarString res = concat (map renderToken toks)"
  shows "CHR '','' \<notin> set (cigarString res)"
proof
  assume "CHR '','' \<in> set (cigarString res)"
  with token_chars[OF assms(1)] assms(2) have "isOpLetter (CHR '','') \<or> isDigit (CHR '','')"
    by simp
  then show False by (auto simp: isOpLetter_def isDigit_def)
qed

lemma finalString_fields:
  assumes "CHR '','' \<notin> set (cigarString res)"
  shows "resultField 0 (finalString ops ms res) = cigarString res"
    and "resultField (Suc 0) (finalString ops ms res) = to_string (s1Start res)"
    and "resultField (Suc (Suc 0)) (finalString ops ms res) = to_string (s1End res)"
    and "resultField (Suc (Suc (Suc 0))) (finalString ops ms res) = to_string (s2Start res)"
    and "resultField (Suc (Suc (Suc (Suc 0)))) (finalString ops ms res) = to_string (s2End res)"
  using assms
  unfolding finalString_def append_Cons append_Nil
  by (simp_all only: resultField_first resultField_next to_string_no_comma not_False_eq_True)

lemma decimal_head: "\<exists>c cs. decimal n = c # cs \<and> isDigit c"
  using decimal_digits[of n] decimal_nonempty[of n]
  by (cases rule: list.exhaust[of "decimal n"]) auto

lemma readInt_to_string: "readInt (to_string x) = Some x"
proof (cases rule: case_split[of "x < 0"])
  case True
  then show ?thesis
    using decimal_digits[of "nat (- x)"] decimal_nonempty[of "nat (- x)"]
    by (simp add: readInt_def to_string_def natOfDigits_decimal)
next
  case False
  obtain c cs where d: "decimal (nat x) = c # cs" "isDigit c"
    using decimal_head by blast
  then have "c \<noteq> CHR ''-''" by (auto simp: isDigit_def)
  moreover have "list_all isDigit (c # cs)" using decimal_digits[of "nat x"] d by simp
  moreover have "natOfDigits (c # cs) = nat x" using natOfDigits_decimal[of "nat x"] d by simp
  ultimately show ?thesis
    using False d by (simp add: readInt_def to_string_def)
qed

text \<open>
  Claim C1, as amended.  The CIGAR field of every non-empty result of \<open>semiGlobalAlign\<close>
  is a concatenation of tokens, each an operation letter among M, I, D, S followed by the
  decimal length of its run, which is at least 1: the letter comes first, not the length.
\<close>

theorem cigar_field_tokens:
  assumes "semiGlobalAlign lib ops s1 s2 s1Len s2Len kSize bandSize allowed ms = Inr result"
    and "result \<noteq> []"
  shows "\<exists>runs. parseCigar (cigarField result) = Some runs
           \<and> cigarField result = concat (map renderToken runs)
           \<and> list_all (\<lambda>run. isOpLetter (fst run) \<and> 1 \<le> snd run) runs"
proof -
  from semiGlobalAlign_nonempty[OF assms] obtain commonLocations res where
    s: "cigarStats (fst (bandedChainAlignment lib s1 s2 (seedChainOf lib commonLocations) bandSize))
                (snd (bandedChainAlignment lib s1 s2 (seedChainOf lib commonLocations) bandSize))
       = Inr (Some res)"
    and r: "result = finalString ops ms res"
    by blast
  from cigarStats_runs[OF s] obtain toks where
    t: "parseCigar (cigarString res) = Some toks"
       "cigarString res = concat (map renderToken toks)"
       "list_all (\<lambda>tok. isOpLetter (fst tok)) toks"
       "list_all (\<lambda>tok. 1 \<le> snd tok) toks"
    by blast
  have f: "cigarField result = cigarString res"
    unfolding r by (rule cigarField_finalString[OF t(3,2)])
  from t(3,4) have "list_all (\<lambda>run. isOpLetter (fst run) \<and> 1 \<le> snd run) toks"
    by (simp add: list_all_iff)
  with t(1,2) f show ?thesis by auto
qed

lemma run_mismatch:
  "semiGlobalAlign (standInSeqAn leftAligned) binary64Ops ''ACGTA'' ''ACCTA'' 5 5 2 10 (Some (1 / 2)) 7
     = Inr ''M5,0,5,0,5,5,4,1,2,0,,0,,1,80.000000,7''"
  by code_simp

text \<open>The theorem at two sequences of five bases that differ in one position.\<close>

theorem cigar_field_tokens_witness:
  "semiGlobalAlign (standInSeqAn leftAligned) binary64Ops ''ACGTA'' ''ACCTA'' 5 5 2 10 (Some (1 / 2)) 7
     = Inr ''M5,0,5,0,5,5,4,1,2,0,,0,,1,80.000000,7''
   \<and> ''M5,0,5,0,5,5,4,1,2,0,,0,,1,80.000000,7'' \<noteq> []
   \<and> (\<exists>runs. parseCigar (cigarField ''M5,0,5,0,5,5,4,1,2,0,,0,,1,80.000000,7'') = Some runs
         \<and> cigarField ''M5,0,5,0,5,5,4,1,2,0,,0,,1,80.000000,7'' = concat (map renderToken runs)
         \<and> list_all (\<lambda>run. isOpLetter (fst run) \<and> 1 \<le> snd run) runs)
   \<and> parseCigar (cigarField ''M5,0,5,0,5,5,4,1,2,0,,0,,1,80.000000,7'') = Some [(CHR ''M'', 5)]"
proof -
  have ne: "''M5,0,5,0,5,5,4,1,2,0,,0,,1,80.000000,7'' \<noteq> []" by simp
  have p: "parseCigar (cigarField ''M5,0,5,0,5,5,4,1,2,0,,0,,1,80.000000,7'') = Some [(CHR ''M'', 5)]"
    by code_simp
  from cigar_field_tokens[OF run_mismatch ne] run_mismatch ne p show ?thesis by blast
qed

text \<open>
  Claim C1 as stated fails: two sequences of five bases that pair position by position
  give the CIGAR field \<^verbatim>\<open>M5\<close>, which is not a sequence of tokens \<open><length><letter>\<close>.
\<close>

theorem cigar_letter_first_counterexample:
  "semiGlobalAlign (standInSeqAn leftAligned) binary64Ops ''ACGTA'' ''ACCTA'' 5 5 2 10 (Some (1 / 2)) 7
     = Inr ''M5,0,5,0,5,5,4,1,2,0,,0,,1,80.000000,7''
   \<and> cigarField ''M5,0,5,0,5,5,4,1,2,0,,0,,1,80.000000,7'' = ''M5''
   \<and> parseCigar_spec ''M5'' = None"
  by code_simp

subsection \<open>The correction of the last run\<close>

text \<open>
  Claim C2, as amended.  Let \<open>st\<close> be the locals when the loop ends.  If the run being
  counted is an Insertion it becomes a Clip and is written as an S run, its length
  leaves \<open>insertionCount\<close> and \<open>s1End\<close> is that much before the bases of seq1 consumed.  If
  it is a Deletion it becomes a run of type \<open>NOTHING\<close>, which writes nothing, its length
  leaves \<open>deletionCount\<close> and \<open>s2End\<close> is that much before the bases of seq2 consumed.  In
  both cases the length is at least 1 and at most the count it leaves.
\<close>

theorem trailing_run_correction:
  assumes "0 < alignmentLength s1A s2A"
    and "cigarLoop s1A s2A [0 ..< nat (alignmentLength s1A s2A)] initialCigarState = Inr st"
  shows "cigarStats s1A s2A = Inr (Some (finishCigar st))
       \<and> (currentCigarType st = INSERTION \<longrightarrow>
            currentCigarType (finishCigar st) = CLIP
          \<and> cigarString (finishCigar st) = cigarString st @ ''S'' @ to_string (currentCigarLength st)
          \<and> insertionCount (finishCigar st) = insertionCount st - currentCigarLength st
          \<and> s1End (finishCigar st) = s1Bases st - currentCigarLength st
          \<and> deletionCount (finishCigar st) = deletionCount st
          \<and> s2End (finishCigar st) = s2Bases st
          \<and> 1 \<le> currentCigarLength st \<and> currentCigarLength st \<le> insertionCount st)
       \<and> (currentCigarType st = DELETION \<longrightarrow>
            currentCigarType (finishCigar st) = NOTHING
          \<and> cigarString (finishCigar st) = cigarString st
          \<and> deletionCount (finishCigar st) = deletionCount st - currentCigarLength st
          \<and> s2End (finishCigar st) = s2Bases st - currentCigarLength st
          \<and> insertionCount (finishCigar st) = insertionCount st
          \<and> s1End (finishCigar st) = s1Bases st
          \<and> 1 \<le> currentCigarLength st \<and> currentCigarLength st \<le> deletionCount st)"
proof -
  have s: "cigarStats s1A s2A = Inr (Some (finishCigar st))"
    using assms by (simp add: cigarStats_def)
  from assms(1) have "0 < nat (alignmentLength s1A s2A)" by simp
  from loop_runsInv[OF assms(2) this] obtain runs where r: "runsInv runs st" by blast
  then have len: "1 \<le> currentCigarLength st" by (simp add: runsInv_def)
  from r have nn: "0 \<le> runTotal INSERTION runs" "0 \<le> runTotal DELETION runs"
    by (simp_all add: runsInv_def runTotal_nonneg)
  have i: "currentCigarType st = INSERTION \<Longrightarrow> currentCigarLength st \<le> insertionCount st"
    using r nn by (simp add: runsInv_def currentRun_def)
  have d: "currentCigarType st = DELETION \<Longrightarrow> currentCigarLength st \<le> deletionCount st"
    using r nn by (simp add: runsInv_def currentRun_def)
  show ?thesis
    using s len i d
    by (simp add: finishCigar_fields currentRun_def getCigarPart_def)
qed

lemma loop_trailing_insertion:
  "cigarLoop ''ACGTA'' ''ACGT-'' [0 ..< nat (alignmentLength ''ACGTA'' ''ACGT-'')] initialCigarState =
     Inr \<lparr>cigarString = ''M4'', currentCigarType = INSERTION, currentCigarLength = 1,
          matchCount = 4, mismatchCount = 0, insertionCount = 1, deletionCount = 0,
          s2MismatchPositions = [], s2InsertionPositions = [4], s2DeletionPositions = [],
          s1Start = 0, s2Start = 0, s1Bases = 5, s2Bases = 4, alignmentStarted = True\<rparr>"
  by code_simp

lemma loop_trailing_deletion:
  "cigarLoop ''ACGT-'' ''ACGTA'' [0 ..< nat (alignmentLength ''ACGT-'' ''ACGTA'')] initialCigarState =
     Inr \<lparr>cigarString = ''M4'', currentCigarType = DELETION, currentCigarLength = 1,
          matchCount = 4, mismatchCount = 0, insertionCount = 0, deletionCount = 1,
          s2MismatchPositions = [], s2InsertionPositions = [], s2DeletionPositions = [4],
          s1Start = 0, s2Start = 0, s1Bases = 4, s2Bases = 5, alignmentStarted = True\<rparr>"
  by code_simp

lemma alignmentLength_five:
  "alignmentLength ''ACGTA'' ''ACGT-'' = 5" "alignmentLength ''ACGT-'' ''ACGTA'' = 5"
  by code_simp+

text \<open>
  The theorem at the rows \<^verbatim>\<open>ACGTA\<close> over \<^verbatim>\<open>ACGT-\<close> (seq1 is one base longer) and at the
  rows \<^verbatim>\<open>ACGT-\<close> over \<^verbatim>\<open>ACGTA\<close> (seq2 is one base longer).
\<close>

theorem trailing_run_correction_witness:
  "(\<exists>res. cigarStats ''ACGTA'' ''ACGT-'' = Inr (Some res) \<and> currentCigarType res = CLIP
          \<and> cigarString res = ''M4S1'' \<and> insertionCount res = 0 \<and> s1End res = 4)
   \<and> (\<exists>res. cigarStats ''ACGT-'' ''ACGTA'' = Inr (Some res) \<and> currentCigarType res = NOTHING
          \<and> cigarString res = ''M4'' \<and> deletionCount res = 0 \<and> s2End res = 4)"
proof -
  have a: "0 < alignmentLength ''ACGTA'' ''ACGT-''" and b: "0 < alignmentLength ''ACGT-'' ''ACGTA''"
    by (simp_all add: alignmentLength_five)
  from trailing_run_correction[OF a loop_trailing_insertion]
       trailing_run_correction[OF b loop_trailing_deletion]
  show ?thesis
    by (simp add: to_string_def decimal.simps digit_char_def)
qed

text \<open>
  Claim C2 as stated fails for a last run that is a Deletion.  For seq1 \<^verbatim>\<open>ACGT\<close> and seq2
  \<^verbatim>\<open>ACGTA\<close>, aligned as \<^verbatim>\<open>ACGT-\<close> over \<^verbatim>\<open>ACGTA\<close>, the loop ends in a Deletion run of
  length 1, and the CIGAR field of the result is \<^verbatim>\<open>M4\<close>, with no S run.
\<close>

theorem trailing_deletion_no_clip_counterexample:
  "semiGlobalAlign (standInSeqAn leftAligned) binary64Ops ''ACGT'' ''ACGTA'' 4 5 2 10 (Some (1 / 2)) 7
     = Inr ''M4,0,4,0,4,4,4,0,,0,,0,4,0,100.000000,7''
   \<and> cigarLoop ''ACGT-'' ''ACGTA'' [0 ..< nat (alignmentLength ''ACGT-'' ''ACGTA'')] initialCigarState =
     Inr \<lparr>cigarString = ''M4'', currentCigarType = DELETION, currentCigarLength = 1,
          matchCount = 4, mismatchCount = 0, insertionCount = 0, deletionCount = 1,
          s2MismatchPositions = [], s2InsertionPositions = [], s2DeletionPositions = [4],
          s1Start = 0, s2Start = 0, s1Bases = 4, s2Bases = 5, alignmentStarted = True\<rparr>
   \<and> cigarStats ''ACGT-'' ''ACGTA'' =
     Inr (Some \<lparr>cigarString = ''M4'', currentCigarType = NOTHING, currentCigarLength = 1,
          matchCount = 4, mismatchCount = 0, insertionCount = 0, deletionCount = 0,
          s2MismatchPositions = [], s2InsertionPositions = [], s2DeletionPositions = [4],
          s1Start = 0, s2Start = 0, s1Bases = 4, s2Bases = 5, alignmentStarted = True,
          s1End = 4, s2End = 4, editDistance = 0, alignedLength = 4\<rparr>)
   \<and> CHR ''S'' \<notin> set ''M4''"
  by code_simp

subsection \<open>The position lists\<close>

text \<open>
  The correction of the last run changes a count and leaves the position lists as the
  loop built them: a list is longer than its count by the length of the corrected run.
\<close>

lemma position_lists_after_correction:
  assumes "cigarLoop s1A s2A idxs initialCigarState = Inr st"
  shows "int (length (s2MismatchPositions (finishCigar st))) = mismatchCount (finishCigar st)"
    and "int (length (s2InsertionPositions (finishCigar st)))
           = insertionCount (finishCigar st) + currentRun INSERTION st"
    and "int (length (s2DeletionPositions (finishCigar st)))
           = deletionCount (finishCigar st) + currentRun DELETION st"
  using cigarLoop_positionsInv[OF assms initial_coordInv(2)]
  by (simp_all add: positionsInv_def finishCigar_fields)

text \<open>
  Claim C3 does not hold of the code.  For seq1 \<^verbatim>\<open>ACGTA\<close> and seq2 \<^verbatim>\<open>ACGT\<close>, aligned as
  \<^verbatim>\<open>ACGTA\<close> over \<^verbatim>\<open>ACGT-\<close>, the last run is an Insertion of length 1: the result has
  \<open>insertionCount = 0\<close> and one insertion position, \<open>4\<close>.
\<close>

theorem trailing_insertion_positions_kept:
  "semiGlobalAlign (standInSeqAn leftAligned) binary64Ops ''ACGTA'' ''ACGT'' 5 4 2 10 (Some (1 / 2)) 7
     = Inr ''M4S1,0,4,0,4,4,4,0,,0,4,0,,0,100.000000,7''
   \<and> cigarStats ''ACGTA'' ''ACGT-'' =
     Inr (Some \<lparr>cigarString = ''M4S1'', currentCigarType = CLIP, currentCigarLength = 1,
          matchCount = 4, mismatchCount = 0, insertionCount = 0, deletionCount = 0,
          s2MismatchPositions = [], s2InsertionPositions = [4], s2DeletionPositions = [],
          s1Start = 0, s2Start = 0, s1Bases = 5, s2Bases = 4, alignmentStarted = True,
          s1End = 4, s2End = 4, editDistance = 0, alignedLength = 4\<rparr>)"
  by code_simp

subsection \<open>CIGAR lengths and coordinates\<close>

lemma cigarStats_started_by_field:
  assumes "cigarStats s1A s2A = Inr (Some res)" and "s1Start res \<noteq> - 1"
  shows "alignmentStarted res"
proof -
  from cigarStats_loop[OF assms(1)] obtain st where
    l: "cigarLoop s1A s2A [0 ..< nat (alignmentLength s1A s2A)] initialCigarState = Inr st"
    and res: "res = finishCigar st"
    by blast
  from cigarLoop_coordInv[OF l initial_coordInv(1)] have "coordInv st" .
  with assms(2) show ?thesis
    by (auto simp: res finishCigar_fields coordInv_def split: if_splits)
qed

lemma cigarStats_coords:
  assumes "cigarStats s1A s2A = Inr (Some res)" and "alignmentStarted res"
  shows "s1End res - s1Start res = matchCount res + mismatchCount res + insertionCount res"
proof -
  from cigarStats_loop[OF assms(1)] obtain st where
    l: "cigarLoop s1A s2A [0 ..< nat (alignmentLength s1A s2A)] initialCigarState = Inr st"
    and res: "res = finishCigar st"
    by blast
  from cigarLoop_coordInv[OF l initial_coordInv(1)] have "coordInv st" .
  with assms(2) show ?thesis
    by (simp add: res finishCigar_fields coordInv_def)
qed

text \<open>
  The loop counts one match, mismatch or deletion for every base of seq2 it consumes
  after the start of the alignment, and one deletion more for every column with a gap in
  both rows.
\<close>

lemma loop_doubleGaps:
  assumes "cigarLoop s1A s2A idxs st = Inr st'" and "coordInv st" and "alignmentStarted st'"
  shows "matchCount st' + mismatchCount st' + deletionCount st' - (s2Bases st' - s2Start st')
         = (if alignmentStarted st
            then matchCount st + mismatchCount st + deletionCount st - (s2Bases st - s2Start st)
            else 0)
           + doubleGaps s1A s2A idxs (alignmentStarted st)"
  using assms(1,2)
proof (induction idxs arbitrary: st)
  case Nil
  with assms(3) show ?case by simp
next
  case (Cons i idxs)
  from Cons.prems(1) obtain b1 b2 where
    r: "charAt s1A i = Inr b1" "charAt s2A i = Inr b2"
    and l: "cigarLoop s1A s2A idxs (cigarStep i b1 b2 st) = Inr st'"
    by (auto split: sum.splits)
  have c: "coordInv (cigarStep i b1 b2 st)" by (rule cigarStep_coordInv[OF Cons.prems(2)])
  have step: "(if alignmentStarted (cigarStep i b1 b2 st)
         then matchCount (cigarStep i b1 b2 st) + mismatchCount (cigarStep i b1 b2 st)
              + deletionCount (cigarStep i b1 b2 st)
              - (s2Bases (cigarStep i b1 b2 st) - s2Start (cigarStep i b1 b2 st))
         else 0)
        = (if alignmentStarted st
           then matchCount st + mismatchCount st + deletionCount st - (s2Bases st - s2Start st)
           else 0)
          + (if alignmentStarted st \<and> b1 = CHR ''-'' \<and> b2 = CHR ''-'' then 1 else 0)"
    using Cons.prems(2)
    unfolding coordInv_def cigarStep_coords cigarStep_counts columnType_cases
    by (auto split: if_splits)
  have flag: "alignmentStarted (cigarStep i b1 b2 st)
        = (alignmentStarted st
           \<or> (charAt s1A i \<noteq> Inr (CHR ''-'') \<and> charAt s2A i \<noteq> Inr (CHR ''-'')))"
    by (simp add: cigarStep_coords r)
  from Cons.IH[OF l c] step show ?case
    unfolding doubleGaps.simps flag[symmetric]
    by (simp add: r)
qed

lemma cigarStats_coords_seq2:
  assumes "cigarStats s1A s2A = Inr (Some res)" and "alignmentStarted res"
  shows "matchCount res + mismatchCount res + deletionCount res
         = s2End res - s2Start res + doubleGapColumns s1A s2A"
proof -
  from cigarStats_loop[OF assms(1)] obtain st where
    l: "cigarLoop s1A s2A [0 ..< nat (alignmentLength s1A s2A)] initialCigarState = Inr st"
    and res: "res = finishCigar st"
    by blast
  from assms(2) have s: "alignmentStarted st" by (simp add: res finishCigar_fields)
  from loop_doubleGaps[OF l initial_coordInv(1) s]
  show ?thesis
    by (simp add: res finishCigar_fields doubleGapColumns_def initialCigarState_def)
qed

text \<open>A start position is a number of bases, so \<open>-1\<close> is only ever the initial value.\<close>

lemma cigarLoop_start_nonneg:
  assumes "cigarLoop s1A s2A idxs st = Inr st'"
    and "0 \<le> s1Bases st \<and> (alignmentStarted st \<longrightarrow> 0 \<le> s1Start st)"
  shows "0 \<le> s1Bases st' \<and> (alignmentStarted st' \<longrightarrow> 0 \<le> s1Start st')"
proof (rule cigarLoop_invariant[OF assms(1),
      where P = "\<lambda>s::CigarState. 0 \<le> s1Bases s \<and> (alignmentStarted s \<longrightarrow> 0 \<le> s1Start s)"])
  show "0 \<le> s1Bases st \<and> (alignmentStarted st \<longrightarrow> 0 \<le> s1Start st)" by (rule assms(2))
next
  fix i b1 b2 and s :: CigarState
  assume "0 \<le> s1Bases s \<and> (alignmentStarted s \<longrightarrow> 0 \<le> s1Start s)"
  then show "0 \<le> s1Bases (cigarStep i b1 b2 s)
             \<and> (alignmentStarted (cigarStep i b1 b2 s) \<longrightarrow> 0 \<le> s1Start (cigarStep i b1 b2 s))"
    by (auto simp: cigarStep_coords)
qed

lemma cigarStats_not_started:
  assumes "cigarStats s1A s2A = Inr (Some res)" and "s1Start res = - 1"
  shows "matchCount res + mismatchCount res = 0"
    and "insertionCount res \<le> 0" and "deletionCount res \<le> 0"
proof -
  from cigarStats_loop[OF assms(1)] obtain st where
    n: "0 < alignmentLength s1A s2A"
    and l: "cigarLoop s1A s2A [0 ..< nat (alignmentLength s1A s2A)] initialCigarState = Inr st"
    and res: "res = finishCigar st"
    by blast
  have "0 \<le> s1Bases st \<and> (alignmentStarted st \<longrightarrow> 0 \<le> s1Start st)"
    by (rule cigarLoop_start_nonneg[OF l]) (simp add: initialCigarState_def)
  with assms(2) have ns: "\<not> alignmentStarted st" by (auto simp: res finishCigar_fields)
  from cigarLoop_coordInv[OF l initial_coordInv(1)] ns
  have z: "matchCount st = 0" "mismatchCount st = 0" "insertionCount st = 0" "deletionCount st = 0"
    by (simp_all add: coordInv_def)
  from n have "0 < nat (alignmentLength s1A s2A)" by simp
  from loop_runsInv[OF l this] obtain runs where "runsInv runs st" by blast
  then have "1 \<le> currentCigarLength st" by (simp add: runsInv_def)
  then have c: "0 \<le> currentRun INSERTION st" "0 \<le> currentRun DELETION st"
    by (simp_all add: currentRun_def)
  show "matchCount res + mismatchCount res = 0" by (simp add: res finishCigar_fields z)
  show "insertionCount res \<le> 0" using c by (simp add: res finishCigar_fields z)
  show "deletionCount res \<le> 0" using c by (simp add: res finishCigar_fields z)
qed

lemma runLengths_nonneg: "0 \<le> runLengths op runs"
  by (simp add: runLengths_def)

text \<open>
  Claim C4, as amended.  In every non-empty result the fields \<open>s1Start\<close>, \<open>s1End\<close>,
  \<open>s2Start\<close> and \<open>s2End\<close> are integers.  Where the field \<open>s1Start\<close> is not \<open>-1\<close>, the
  lengths of the M and I runs of the CIGAR field add up to \<open>s1End - s1Start\<close>, and the
  lengths of the M and D runs add up to \<open>s2End - s2Start\<close> plus the number of columns with
  a gap in both rows, which is 0 for the rows of an alignment.  Where the field \<open>s1Start\<close>
  is \<open>-1\<close>, the CIGAR field has no M, I or D run.
\<close>

theorem cigar_reconstructs_lengths:
  assumes "semiGlobalAlign lib ops s1 s2 s1Len s2Len kSize bandSize allowed ms = Inr result"
    and "result \<noteq> []"
    and "commonLocationsOf s1 s2 s1Len s2Len kSize = Inr commonLocations"
    and "bandedChainAlignment lib s1 s2 (seedChainOf lib commonLocations) bandSize = (s1A, s2A)"
  shows "\<exists>runs start1 end1 start2 end2.
           parseCigar (cigarField result) = Some runs
         \<and> readInt (resultField 1 result) = Some start1
         \<and> readInt (resultField 2 result) = Some end1
         \<and> readInt (resultField 3 result) = Some start2
         \<and> readInt (resultField 4 result) = Some end2
         \<and> (start1 \<noteq> - 1 \<longrightarrow>
              runLengths (CHR ''M'') runs + runLengths (CHR ''I'') runs = end1 - start1
            \<and> runLengths (CHR ''M'') runs + runLengths (CHR ''D'') runs
                = end2 - start2 + doubleGapColumns s1A s2A)
         \<and> (start1 = - 1 \<longrightarrow>
              runLengths (CHR ''M'') runs = 0 \<and> runLengths (CHR ''I'') runs = 0
            \<and> runLengths (CHR ''D'') runs = 0)"
proof -
  from semiGlobalAlign_nonempty[OF assms(1,2)] obtain locs res where
    c: "commonLocationsOf s1 s2 s1Len s2Len kSize = Inr locs"
    and s': "cigarStats (fst (bandedChainAlignment lib s1 s2 (seedChainOf lib locs) bandSize))
                        (snd (bandedChainAlignment lib s1 s2 (seedChainOf lib locs) bandSize))
               = Inr (Some res)"
    and r: "result = finalString ops ms res"
    by blast
  from c assms(3) have "locs = commonLocations" by simp
  with s' assms(4) have s: "cigarStats s1A s2A = Inr (Some res)" by simp
  from cigarStats_runs[OF s] obtain toks where
    t: "parseCigar (cigarString res) = Some toks"
       "cigarString res = concat (map renderToken toks)"
       "list_all (\<lambda>tok. isOpLetter (fst tok)) toks"
       "runLengths (CHR ''M'') toks = matchCount res + mismatchCount res"
       "runLengths (CHR ''I'') toks = insertionCount res"
       "runLengths (CHR ''D'') toks = deletionCount res"
    by blast
  have f0: "cigarField result = cigarString res"
    unfolding r by (rule cigarField_finalString[OF t(3,2)])
  note nc = cigar_no_comma[OF t(3,2)]
  have f: "readInt (resultField 1 result) = Some (s1Start res)"
      "readInt (resultField 2 result) = Some (s1End res)"
      "readInt (resultField 3 result) = Some (s2Start res)"
      "readInt (resultField 4 result) = Some (s2End res)"
    unfolding r field_numerals
    by (simp_all only: finalString_fields[OF nc] readInt_to_string)
  have eq: "s1Start res \<noteq> - 1 \<longrightarrow>
              runLengths (CHR ''M'') toks + runLengths (CHR ''I'') toks = s1End res - s1Start res
            \<and> runLengths (CHR ''M'') toks + runLengths (CHR ''D'') toks
                = s2End res - s2Start res + doubleGapColumns s1A s2A"
  proof
    assume "s1Start res \<noteq> - 1"
    from cigarStats_started_by_field[OF s this] have st: "alignmentStarted res" .
    from cigarStats_coords[OF s st] cigarStats_coords_seq2[OF s st] t(4,5,6)
    show "runLengths (CHR ''M'') toks + runLengths (CHR ''I'') toks = s1End res - s1Start res
            \<and> runLengths (CHR ''M'') toks + runLengths (CHR ''D'') toks
                = s2End res - s2Start res + doubleGapColumns s1A s2A"
      by simp
  qed
  have none: "s1Start res = - 1 \<longrightarrow>
              runLengths (CHR ''M'') toks = 0 \<and> runLengths (CHR ''I'') toks = 0
            \<and> runLengths (CHR ''D'') toks = 0"
  proof
    assume "s1Start res = - 1"
    from cigarStats_not_started[OF s this] t(4,5,6)
      runLengths_nonneg[of "CHR ''I''" toks] runLengths_nonneg[of "CHR ''D''" toks]
    show "runLengths (CHR ''M'') toks = 0 \<and> runLengths (CHR ''I'') toks = 0
            \<and> runLengths (CHR ''D'') toks = 0"
      by simp
  qed
  from t(1) f0 f eq none show ?thesis by auto
qed

lemma locs_mismatch:
  "commonLocationsOf ''ACGTA'' ''ACCTA'' 5 5 2 = Inr [(0, 2, 0, 2)]"
  by code_simp

lemma rows_leftAligned:
  "bandedChainAlignment (standInSeqAn leftAligned) ''ACGTA'' ''ACCTA''
     (seedChainOf (standInSeqAn leftAligned) [(0, 2, 0, 2)]) 10
   = (''ACGTA'', ''ACCTA'')"
  by code_simp

lemma locs_TAT_GAG: "commonLocationsOf ''TAT'' ''GAG'' 3 3 1 = Inr [(1, 2, 1, 2)]"
  by code_simp

lemma rows_TAT_GAG:
  "bandedChainAlignment (standInSeqAn scoredPlacement) ''TAT'' ''GAG''
     (seedChainOf (standInSeqAn scoredPlacement) [(1, 2, 1, 2)]) 10
   = (''TAT---'', ''---GAG'')"
  by code_simp

lemma run_TAT_GAG:
  "semiGlobalAlign (standInSeqAn scoredPlacement) binary64Ops ''TAT'' ''GAG'' 3 3 1 10 (Some (1 / 2)) 7
     = Inr ''S3,-1,3,-1,3,0,0,0,,0,,0,,0,-nan,7''"
  by code_simp

text \<open>
  The theorem at the same two sequences, where the five columns are one M run, the fields
  1 to 4 read 0, 5, 0 and 5 and no column has a gap in both rows; and at the sequences
  \<^verbatim>\<open>TAT\<close> and \<^verbatim>\<open>GAG\<close> aligned end to end, where the field \<open>s1Start\<close> reads \<open>-1\<close> and
  the CIGAR field is one S run.
\<close>

theorem cigar_reconstructs_lengths_witness:
  "semiGlobalAlign (standInSeqAn leftAligned) binary64Ops ''ACGTA'' ''ACCTA'' 5 5 2 10 (Some (1 / 2)) 7
     = Inr ''M5,0,5,0,5,5,4,1,2,0,,0,,1,80.000000,7''
   \<and> parseCigar (cigarField ''M5,0,5,0,5,5,4,1,2,0,,0,,1,80.000000,7'') = Some [(CHR ''M'', 5)]
   \<and> readInt (resultField 1 ''M5,0,5,0,5,5,4,1,2,0,,0,,1,80.000000,7'') = Some 0
   \<and> readInt (resultField 2 ''M5,0,5,0,5,5,4,1,2,0,,0,,1,80.000000,7'') = Some 5
   \<and> readInt (resultField 3 ''M5,0,5,0,5,5,4,1,2,0,,0,,1,80.000000,7'') = Some 0
   \<and> readInt (resultField 4 ''M5,0,5,0,5,5,4,1,2,0,,0,,1,80.000000,7'') = Some 5
   \<and> doubleGapColumns ''ACGTA'' ''ACCTA'' = 0
   \<and> runLengths (CHR ''M'') [(CHR ''M'', 5)] + runLengths (CHR ''I'') [(CHR ''M'', 5)] = 5 - 0
   \<and> runLengths (CHR ''M'') [(CHR ''M'', 5)] + runLengths (CHR ''D'') [(CHR ''M'', 5)] = 5 - 0 + 0
   \<and> semiGlobalAlign (standInSeqAn scoredPlacement) binary64Ops ''TAT'' ''GAG'' 3 3 1 10 (Some (1 / 2)) 7
     = Inr ''S3,-1,3,-1,3,0,0,0,,0,,0,,0,-nan,7''
   \<and> parseCigar (cigarField ''S3,-1,3,-1,3,0,0,0,,0,,0,,0,-nan,7'') = Some [(CHR ''S'', 3)]
   \<and> readInt (resultField 1 ''S3,-1,3,-1,3,0,0,0,,0,,0,,0,-nan,7'') = Some (- 1)
   \<and> runLengths (CHR ''M'') [(CHR ''S'', 3)] = 0
   \<and> runLengths (CHR ''I'') [(CHR ''S'', 3)] = 0
   \<and> runLengths (CHR ''D'') [(CHR ''S'', 3)] = 0"
proof -
  let ?r = "''M5,0,5,0,5,5,4,1,2,0,,0,,1,80.000000,7''"
  let ?q = "''S3,-1,3,-1,3,0,0,0,,0,,0,,0,-nan,7''"
  have ne: "?r \<noteq> []" "?q \<noteq> []" by simp_all
  have p: "parseCigar (cigarField ?r) = Some [(CHR ''M'', 5)]" by code_simp
  have f: "readInt (resultField 1 ?r) = Some 0" "readInt (resultField 2 ?r) = Some 5"
    "readInt (resultField 3 ?r) = Some 0" "readInt (resultField 4 ?r) = Some 5"
    by code_simp+
  have g: "doubleGapColumns ''ACGTA'' ''ACCTA'' = 0" by code_simp
  from cigar_reconstructs_lengths[OF run_mismatch ne(1) locs_mismatch rows_leftAligned]
  have one: "runLengths (CHR ''M'') [(CHR ''M'', 5)] + runLengths (CHR ''I'') [(CHR ''M'', 5)] = 5 - 0
      \<and> runLengths (CHR ''M'') [(CHR ''M'', 5)] + runLengths (CHR ''D'') [(CHR ''M'', 5)] = 5 - 0 + 0"
    unfolding p f g by auto
  have p': "parseCigar (cigarField ?q) = Some [(CHR ''S'', 3)]" by code_simp
  have f': "readInt (resultField 1 ?q) = Some (- 1)" by code_simp
  from cigar_reconstructs_lengths[OF run_TAT_GAG ne(2) locs_TAT_GAG rows_TAT_GAG]
  have two: "runLengths (CHR ''M'') [(CHR ''S'', 3)] = 0 \<and> runLengths (CHR ''I'') [(CHR ''S'', 3)] = 0
      \<and> runLengths (CHR ''D'') [(CHR ''S'', 3)] = 0"
    unfolding p' f' by auto
  from run_mismatch p f g one run_TAT_GAG p' f' two show ?thesis by blast
qed

text \<open>
  Claim C4 as stated fails for a result whose \<open>s1Start\<close> is \<open>-1\<close>.  The sequences \<^verbatim>\<open>TAT\<close>
  and \<^verbatim>\<open>GAG\<close> share the 1-mer \<^verbatim>\<open>A\<close>; aligned end to end, as \<^verbatim>\<open>TAT---\<close> over \<^verbatim>\<open>---GAG\<close>, they
  give the CIGAR field \<^verbatim>\<open>S3\<close>, with no M or I run, while \<open>s1End - s1Start = 3 - (-1) = 4\<close>.
  The second equation fails besides on rows with a column of two gaps, which the loop
  takes like any other rows: \<^verbatim>\<open>A-CG\<close> over \<^verbatim>\<open>A-CG\<close> give \<^verbatim>\<open>M1D1M2\<close>, runs of total length 4,
  while \<open>s2End - s2Start = 3 - 0\<close>.
\<close>

theorem no_aligned_column_lengths_counterexample:
  "semiGlobalAlign (standInSeqAn scoredPlacement) binary64Ops ''TAT'' ''GAG'' 3 3 1 10 (Some (1 / 2)) 7
     = Inr ''S3,-1,3,-1,3,0,0,0,,0,,0,,0,-nan,7''
   \<and> bandedChainAlignment (standInSeqAn scoredPlacement) ''TAT'' ''GAG''
        (seedChainOf (standInSeqAn scoredPlacement) [(1, 2, 1, 2)]) 10 = (''TAT---'', ''---GAG'')
   \<and> ''S3,-1,3,-1,3,0,0,0,,0,,0,,0,-nan,7'' \<noteq> []
   \<and> parseCigar (cigarField ''S3,-1,3,-1,3,0,0,0,,0,,0,,0,-nan,7'') = Some [(CHR ''S'', 3)]
   \<and> readInt (resultField 1 ''S3,-1,3,-1,3,0,0,0,,0,,0,,0,-nan,7'') = Some (- 1)
   \<and> readInt (resultField 2 ''S3,-1,3,-1,3,0,0,0,,0,,0,,0,-nan,7'') = Some 3
   \<and> runLengths (CHR ''M'') [(CHR ''S'', 3)] + runLengths (CHR ''I'') [(CHR ''S'', 3)] \<noteq> 3 - (- 1)
   \<and> map_sum id (map_option (finalString binary64Ops 7)) (cigarStats ''A-CG'' ''A-CG'')
       = Inr (Some ''M1D1M2,0,3,0,3,4,3,0,,0,,1,1,1,75.000000,7'')
   \<and> parseCigar (cigarField ''M1D1M2,0,3,0,3,4,3,0,,0,,1,1,1,75.000000,7'')
       = Some [(CHR ''M'', 1), (CHR ''D'', 1), (CHR ''M'', 2)]
   \<and> readInt (resultField 3 ''M1D1M2,0,3,0,3,4,3,0,,0,,1,1,1,75.000000,7'') = Some 0
   \<and> readInt (resultField 4 ''M1D1M2,0,3,0,3,4,3,0,,0,,1,1,1,75.000000,7'') = Some 3
   \<and> runLengths (CHR ''M'') [(CHR ''M'', 1), (CHR ''D'', 1), (CHR ''M'', 2)]
       + runLengths (CHR ''D'') [(CHR ''M'', 1), (CHR ''D'', 1), (CHR ''M'', 2)] \<noteq> 3 - 0
   \<and> doubleGapColumns ''A-CG'' ''A-CG'' = 1"
  by code_simp

subsection \<open>The empty result\<close>

lemma cigarStats_None_iff:
  assumes "int (length s1A) \<le> INT_MAX" and "int (length s2A) \<le> INT_MAX"
  shows "cigarStats s1A s2A = Inr None \<longleftrightarrow> s1A = [] \<and> s2A = []"
  using assms
  by (auto simp: cigarStats_def alignmentLength_in_range split: sum.splits)

text \<open>
  Claim C5.  Where the k-mers are found without an exception and the two aligned rows
  have at most \<open>INT_MAX\<close> characters, \<open>semiGlobalAlign\<close> returns the empty string exactly when
  the seed chain is empty, or its \<open>seq2Span\<close> is 0, or the span ratio is out of tolerance,
  or both aligned rows are empty.
\<close>

theorem empty_result_iff:
  assumes "commonLocationsOf s1 s2 s1Len s2Len kSize = Inr commonLocations"
    and "bandedChainAlignment lib s1 s2 (seedChainOf lib commonLocations) bandSize = (s1A, s2A)"
    and "int (length s1A) \<le> INT_MAX" and "int (length s2A) \<le> INT_MAX"
  shows "semiGlobalAlign lib ops s1 s2 s1Len s2Len kSize bandSize allowed ms = Inr [] \<longleftrightarrow>
           seedChainOf lib commonLocations = []
           \<or> seq2Span (seedChainOf lib commonLocations) = 0
           \<or> ratioOutOfTolerance ops (seedChainOf lib commonLocations) allowed
           \<or> (s1A = [] \<and> s2A = [])"
proof -
  let ?chain = "seedChainOf lib commonLocations"
  have a: "semiGlobalAlign lib ops s1 s2 s1Len s2Len kSize bandSize allowed ms =
             alignChain lib ops s1 s2 bandSize allowed ms ?chain"
    using assms(1) by (simp add: semiGlobalAlign_def)
  have b: "(case cigarStats s1A s2A of Inl e \<Rightarrow> Inl e | Inr None \<Rightarrow> Inr []
            | Inr (Some res) \<Rightarrow> Inr (finalString ops ms res)) = Inr []
           \<longleftrightarrow> s1A = [] \<and> s2A = []"
    using cigarStats_None_iff[OF assms(3,4)]
    by (auto simp: finalString_nonempty split: sum.splits option.splits)
  show ?thesis
    unfolding a alignChain_def Let_def assms(2) fst_conv snd_conv
    using b by auto
qed

lemma locs_AAAA_CCCC: "commonLocationsOf ''AAAA'' ''CCCC'' 4 4 2 = Inr []"
  by code_simp

lemma locs_ACGT_ACGT: "commonLocationsOf ''ACGT'' ''ACGT'' 4 4 2 = Inr [(0, 2, 0, 2), (1, 3, 1, 3)]"
  by code_simp

text \<open>The theorem at two sequences with no common k-mer, and at two equal sequences.\<close>

theorem empty_result_iff_witness:
  "semiGlobalAlign (standInSeqAn leftAligned) binary64Ops ''AAAA'' ''CCCC'' 4 4 2 10 (Some (1 / 2)) 7 = Inr []
   \<and> seedChainOf (standInSeqAn leftAligned) [] = []
   \<and> semiGlobalAlign (standInSeqAn leftAligned) binary64Ops ''ACGT'' ''ACGT'' 4 4 2 10 (Some (1 / 2)) 7 \<noteq> Inr []"
proof -
  have r1: "bandedChainAlignment (standInSeqAn leftAligned) ''AAAA'' ''CCCC''
              (seedChainOf (standInSeqAn leftAligned) []) 10 = (''AAAA'', ''CCCC'')"
    by (simp add: standInSeqAn_def leftAligned_def)
  have r2: "bandedChainAlignment (standInSeqAn leftAligned) ''ACGT'' ''ACGT''
              (seedChainOf (standInSeqAn leftAligned) [(0, 2, 0, 2), (1, 3, 1, 3)]) 10 = (''ACGT'', ''ACGT'')"
    by (simp add: standInSeqAn_def leftAligned_def)
  have c1: "seedChainOf (standInSeqAn leftAligned) [] = []"
    by code_simp
  have c2: "\<not> (seedChainOf (standInSeqAn leftAligned) [(0, 2, 0, 2), (1, 3, 1, 3)] = []
         \<or> seq2Span (seedChainOf (standInSeqAn leftAligned) [(0, 2, 0, 2), (1, 3, 1, 3)]) = 0
         \<or> ratioOutOfTolerance binary64Ops
              (seedChainOf (standInSeqAn leftAligned) [(0, 2, 0, 2), (1, 3, 1, 3)]) (Some (1 / 2))
         \<or> (''ACGT'' = [] \<and> ''ACGT'' = []))"
    by code_simp
  have l: "int (length ''AAAA'') \<le> INT_MAX" "int (length ''CCCC'') \<le> INT_MAX"
    "int (length ''ACGT'') \<le> INT_MAX"
    by (simp_all add: INT_MAX_def)
  from empty_result_iff[OF locs_AAAA_CCCC r1 l(1,2), of binary64Ops "Some (1 / 2)" 7] c1
       empty_result_iff[OF locs_ACGT_ACGT r2 l(3,3), of binary64Ops "Some (1 / 2)" 7] c2
  show ?thesis by simp
qed

subsection \<open>The ratio filter\<close>








subsection \<open>The percent identity\<close>

lemma stats_end_to_end:
  "cigarStats ''A-'' ''-A'' =
     Inr (Some \<lparr>cigarString = ''S1'', currentCigarType = NOTHING, currentCigarLength = 1,
          matchCount = 0, mismatchCount = 0, insertionCount = 0, deletionCount = 0,
          s2MismatchPositions = [], s2InsertionPositions = [], s2DeletionPositions = [],
          s1Start = - 1, s2Start = - 1, s1Bases = 1, s2Bases = 1, alignmentStarted = False,
          s1End = 1, s2End = 1, editDistance = 0, alignedLength = 0\<rparr>)"
  by code_simp

text \<open>
  Claim C8 does not hold of the code.  On the rows \<^verbatim>\<open>A-\<close> over \<^verbatim>\<open>-A\<close> the aligned length
  is 0, and the percent identity is the quotient of \<open>100.0 * 0\<close> by \<open>0\<close>, whatever the
  arithmetic on doubles: line 206 divides without a test.
\<close>

theorem percentIdentity_divides_by_zero:
  "\<exists>res. cigarStats ''A-'' ''-A'' = Inr (Some res) \<and> alignedLength res = 0
         \<and> percentIdentity ops res =
             d_div ops (d_mul ops (d_hundred ops) (d_of_int ops 0)) (d_of_int ops 0)"
  by (simp add: stats_end_to_end percentIdentity_def)

subsection \<open>Rows without an aligned column\<close>






text \<open>
  A row more than one character shorter than the other is read past its terminator,
  which is undefined.
\<close>

lemma read_past_terminator: "cigarStats ''---'' ''A'' = Inl OutOfRange"
  by code_simp

end
